theory Spec2Isabelle
  imports Complex_Main
begin

section \<open>Numbers and strings of the source language\<close>

text \<open>
  The extension is JavaScript. Its numbers are modelled as reals (and as naturals where the
  source reads a \<^verbatim>\<open>.length\<close> or counts with \<^verbatim>\<open>++\<close>), so rounding
  errors of the IEEE doubles are outside the model. Host names are \<^typ>\<open>string\<close>.
\<close>

text \<open>\<^verbatim>\<open>Number(x.toFixed(d))\<close>: the decimal with \<open>d\<close> fractional digits nearest
  to \<open>x\<close>, the larger one on a tie; a negative \<open>x\<close> is rounded as \<open>-x\<close> and negated.\<close>

definition toFixed :: "nat \<Rightarrow> real \<Rightarrow> real" where
  "toFixed d x =
     (if x < 0 then - (of_int \<lfloor>(- x) * 10 ^ d + 1 / 2\<rfloor> / 10 ^ d)
      else of_int \<lfloor>x * 10 ^ d + 1 / 2\<rfloor> / 10 ^ d)"

text \<open>\<^verbatim>\<open>Math.round\<close> rounds to the nearest integer, upwards on a tie.\<close>

definition mathRound :: "real \<Rightarrow> int" where
  "mathRound x = \<lfloor>x + 1 / 2\<rfloor>"

text \<open>\<^verbatim>\<open>Math.pow(x, 1.5)\<close>, exact for \<open>0 \<le> x\<close> (JavaScript yields NaN below 0).\<close>

definition pow15 :: "real \<Rightarrow> real" where
  "pow15 x = x powr (3 / 2)"


section \<open>Text primitives of the detectors\<close>

text \<open>A page text is a JavaScript string: the list of its UTF-16 code units, each a natural
  number; its \<^verbatim>\<open>length\<close> is the length of the list.\<close>

type_synonym jsString = "nat list"

definition ascii :: "string \<Rightarrow> jsString" where
  "ascii s = map of_char s"

text \<open>\<^verbatim>\<open>toLowerCase\<close>. The letters A to Z move to a to z, the capital letters of
  Latin-1 (U+00C0 to U+00DE, the sign U+00D7 apart) to their small letters 32 code units
  higher, the Kelvin sign U+212A to k, and U+0130 (capital I with a dot above) becomes the
  two code units U+0069 U+0307, the one lower-case mapping of Unicode that changes the number
  of code units. The capital letters of the other scripts, whose mappings keep the number of
  code units, are left as they are.\<close>

definition lowerUnit :: "nat \<Rightarrow> nat list" where
  "lowerUnit u =
     (if 65 \<le> u \<and> u \<le> 90 then [u + 32]
      else if 192 \<le> u \<and> u \<le> 222 \<and> u \<noteq> 215 then [u + 32]
      else if u = 8490 then [107]
      else if u = 304 then [105, 775]
      else [u])"

definition toLowerCase :: "jsString \<Rightarrow> jsString" where
  "toLowerCase s = concat (map lowerUnit s)"

text \<open>The code units that \<^verbatim>\<open>trim\<close> removes.\<close>

definition isWhiteSpace :: "nat \<Rightarrow> bool" where
  "isWhiteSpace u =
     (u \<in> {9, 10, 11, 12, 13, 32, 160, 5760, 8232, 8233, 8239, 8287, 12288, 65279}
      \<or> (8192 \<le> u \<and> u \<le> 8202))"

definition trim :: "jsString \<Rightarrow> jsString" where
  "trim s = rev (dropWhile isWhiteSpace (rev (dropWhile isWhiteSpace s)))"

text \<open>\<^verbatim>\<open>[...new Set(xs)]\<close>: the first occurrence of each element, in order.\<close>

definition dedupe :: "'a list \<Rightarrow> 'a list" where
  "dedupe xs = foldl (\<lambda>acc x. if x \<in> set acc then acc else acc @ [x]) [] xs"

text \<open>A regular expression is named: \<open>Pattern c i\<close> is entry \<open>i\<close> of the list
  \<^verbatim>\<open>patterns\<close> of category \<open>c\<close> of a table, \<open>Literal n\<close> a literal of the source.
  What an expression matches is not modelled: the engine is a parameter of the detectors, with
  \<^item> \<open>execAt e r s i\<close>, the matcher of \<open>r\<close> run on \<open>s\<close> from index \<open>i\<close>: \<open>None\<close> when
    nothing matches at or after \<open>i\<close>, and \<open>Some (k, m)\<close> for the first match, which starts
    at index \<open>i + k\<close> and is the string \<open>m\<close>,
  \<^item> \<open>splitRe e r s\<close>, the array \<^verbatim>\<open>s.split(r)\<close>,
  \<^item> \<open>replaceRe e r s\<close>, the string \<^verbatim>\<open>s.replace(r, '')\<close>.\<close>

datatype regex = Pattern string nat | Literal string

record engine =
  execAt :: "regex \<Rightarrow> jsString \<Rightarrow> nat \<Rightarrow> (nat \<times> jsString) option"
  splitRe :: "regex \<Rightarrow> jsString \<Rightarrow> jsString list"
  replaceRe :: "regex \<Rightarrow> jsString \<Rightarrow> jsString"

text \<open>Every expression of the detectors has the flag \<^verbatim>\<open>g\<close>, so its object carries a
  \<^verbatim>\<open>lastIndex\<close> from one use to the next. The expressions that a detector creates once,
  in its constructor, are the mutable state of the detector: their \<^verbatim>\<open>lastIndex\<close>
  values.\<close>

type_synonym regexState = "regex \<Rightarrow> nat"

text \<open>\<^verbatim>\<open>r.exec(s)\<close> of the language, for a global \<open>r\<close>: the search starts at
  \<^verbatim>\<open>r.lastIndex\<close>; a match moves \<^verbatim>\<open>lastIndex\<close> to its end, and a failure (also
  a \<^verbatim>\<open>lastIndex\<close> beyond the end of \<open>s\<close>) sets it to 0. \<^verbatim>\<open>r.test(s)\<close> is
  whether \<^verbatim>\<open>r.exec(s)\<close> finds a match.\<close>

definition regExpExec ::
  "engine \<Rightarrow> regex \<Rightarrow> jsString \<Rightarrow> regexState \<Rightarrow> jsString option \<times> regexState" where
  "regExpExec e r s st =
     (let lastIndex = st r
      in if lastIndex > length s then (None, st(r := 0))
         else (case execAt e r s lastIndex of
                 None \<Rightarrow> (None, st(r := 0))
               | Some (k, m) \<Rightarrow> (Some m, st(r := lastIndex + k + length m))))"

text \<open>The loop of \<^verbatim>\<open>s.match(r)\<close> for a global \<open>r\<close>: \<^verbatim>\<open>exec\<close> until it fails,
  collecting the matched strings; after an empty match \<^verbatim>\<open>lastIndex\<close> is advanced
  by one.\<close>

function matchLoop ::
  "engine \<Rightarrow> regex \<Rightarrow> jsString \<Rightarrow> regexState \<Rightarrow> jsString list \<times> regexState" where
  "matchLoop e r s st =
     (case regExpExec e r s st of
        (None, st1) \<Rightarrow> ([], st1)
      | (Some m, st1) \<Rightarrow>
          (let st2 = (if m = [] then st1(r := st1 r + 1) else st1);
               (ms, st3) = matchLoop e r s st2
           in (m # ms, st3)))"
  by pat_completeness auto

termination
  apply (relation "measure (\<lambda>(e, r, s, st). length s + 1 - st r)")
  apply simp
  apply (auto simp: regExpExec_def Let_def neq_Nil_conv split: if_splits option.splits)
  done

text \<open>\<^verbatim>\<open>s.match(r) || []\<close> for a stored global \<open>r\<close>: \<^verbatim>\<open>match\<close> sets
  \<^verbatim>\<open>r.lastIndex\<close> to 0 and runs the loop.\<close>

definition matchStored ::
  "engine \<Rightarrow> regex \<Rightarrow> jsString \<Rightarrow> regexState \<Rightarrow> jsString list \<times> regexState" where
  "matchStored e r s st = matchLoop e r s (st(r := 0))"

text \<open>An expression written as a literal in a function body is a new object, with
  \<^verbatim>\<open>lastIndex\<close> 0, each time the literal is evaluated, and the object is dropped after
  its use: \<open>matchAll e r s\<close> is \<^verbatim>\<open>s.match(r) || []\<close> and \<open>testRe e r s\<close> is
  \<^verbatim>\<open>r.test(s)\<close> for such an \<open>r\<close>. \<open>matchAll\<close> also stands for
  \<^verbatim>\<open>s.match(r) || []\<close> with a stored \<open>r\<close> where the state of the detector is not
  followed (the jailbreak scanner).\<close>

definition matchAll :: "engine \<Rightarrow> regex \<Rightarrow> jsString \<Rightarrow> jsString list" where
  "matchAll e r s = fst (matchStored e r s (\<lambda>r. 0))"

definition testRe :: "engine \<Rightarrow> regex \<Rightarrow> jsString \<Rightarrow> bool" where
  "testRe e r s = (fst (regExpExec e r s (\<lambda>r. 0)) \<noteq> None)"

text \<open>The loop \<^verbatim>\<open>for (const pattern of config.patterns)\<close> over the stored patterns of
  one category: all matches in order, and the state.\<close>

definition matchCategory ::
  "engine \<Rightarrow> jsString \<Rightarrow> regex list \<Rightarrow> regexState \<Rightarrow> jsString list \<times> regexState" where
  "matchCategory e s patterns st =
     foldl (\<lambda>(found, st) p. (let (ms, st') = matchStored e p s st in (found @ ms, st')))
       ([], st) patterns"

definition patternsOf :: "string \<Rightarrow> nat \<Rightarrow> regex list" where
  "patternsOf category n = map (Pattern category) [0 ..< n]"

text \<open>\<^verbatim>\<open>calculateVariance\<close>\<close>

definition calculateVariance :: "real list \<Rightarrow> real" where
  "calculateVariance numbers =
     (if length numbers = 0 then 0
      else (let mean = sum_list numbers / real (length numbers)
            in sum_list (map (\<lambda>num. (num - mean) ^ 2) numbers) / real (length numbers)))"

text \<open>\<^verbatim>\<open>n / d > t\<close> for two counts: dividing by zero gives Infinity for a positive \<open>n\<close> and
  NaN, which compares false, for 0.\<close>

definition ratioExceeds :: "nat \<Rightarrow> nat \<Rightarrow> real \<Rightarrow> bool" where
  "ratioExceeds n d t = (if d = 0 then n > 0 else real n / real d > t)"


section \<open>Results of the detectors (content scripts)\<close>

record manipulationTechnique =
  mt_type :: string
  mt_severity :: string

record riskFactor =
  rf_type :: string
  rf_severity :: string

record componentEntry =
  ce_score :: real
  ce_weight :: real
  ce_contribution :: real

record textStatistics =
  wordCount :: nat
  sentenceCount :: nat
  characterCount :: nat
  avgWordLength :: "real option"
  avgSentenceLength :: "real option"
  readabilityScore :: real

text \<open>The object returned by \<^verbatim>\<open>AITextAnalyzer.analyzeText\<close>. The \<^verbatim>\<open>details\<close> of
  the breakdown and the \<^verbatim>\<open>examples\<close> of the urgency indicators, which repeat
  intermediate values, are left out; \<open>textStats\<close> is \<open>None\<close> for the empty object, and
  an average is \<open>None\<close> where the source divides by zero.\<close>

record aiResult =
  aiProbability :: real
  confidence :: real
  breakdown :: "(string \<times> componentEntry) list"
  persuasionFlags :: "string list"
  persuasionScore :: real
  urgencyScore :: real
  urgencyIndicators :: "(string \<times> nat) list"
  manipulationTechniques :: "manipulationTechnique list"
  credibilityScore :: real
  credibilityFactors :: "(string \<times> string) list"
  recommendation :: string
  textStats :: "textStatistics option"

record likelyModel =
  lm_type :: string
  lm_confidence :: real

record llmHeuristics =
  h_score :: real
  h_excessiveFormality :: "nat option"
  h_suspiciousGrammar :: bool
  h_unnaturalRhythm :: "real option"
  h_overStructured :: "nat option"
  h_repetitivePhrases :: "jsString list option"

text \<open>The object returned by \<^verbatim>\<open>LLMFingerprinter.detectAIPhishing\<close>; \<open>llm_heuristics\<close>
  is \<open>None\<close> for the empty object of the empty result.\<close>

record llmResult =
  llm_score :: real
  llm_matches :: "(string \<times> jsString list) list"
  llm_totalHits :: nat
  llm_modelSignatures :: "(string \<times> real) list"
  llm_likelyModel :: "likelyModel option"
  llm_contextMultiplier :: real
  llm_heuristics :: "llmHeuristics option"
  llm_riskFactors :: "riskFactor list"

record typosquatting =
  isTyposquat :: bool
  likelyTarget :: "string option"
  distance :: "nat option"
  technique :: "string option"
  ts_confidence :: real

text \<open>Of the object returned by \<^verbatim>\<open>DomainReputation.checkDomain\<close>, the two parts the
  aggregator reads; \<open>dr_typosquatting\<close> is \<open>None\<close> where \<^verbatim>\<open>advancedAnalysis\<close> has no
  \<^verbatim>\<open>typosquatting\<close> member (the result for localhost).\<close>

record domainResult =
  dr_riskScore :: real
  dr_typosquatting :: "typosquatting option"


section \<open>The composite aggregator (content/notifier.js)\<close>

record metrics =
  m_aiProbability :: real
  m_aiConfidence :: real
  m_urgencyScore :: real
  m_persuasionScore :: real
  m_persuasionCount :: nat
  m_llmScore :: real
  m_llmRiskFactors :: nat
  m_domainRisk :: real
  m_jailbreakHits :: real
  m_jailbreakCritical :: nat
  m_manipulationTechniques :: nat
  m_credibilityScore :: real

record scoreBreakdown =
  b_aiAnalysis :: real
  b_urgency :: real
  b_persuasion :: real
  b_llmFingerprint :: real
  b_domainReputation :: real
  b_jailbreakAttempts :: real
  b_manipulationTactics :: real
  b_credibilityPenalty :: real

record compositeScore =
  cs_total :: real
  cs_breakdown :: scoreBreakdown
  cs_confidence :: real

definition aiContribution :: "metrics \<Rightarrow> real" where
  "aiContribution m = m_aiProbability m * pow15 (m_aiConfidence m) * 20"

definition urgencyContribution :: "metrics \<Rightarrow> real" where
  "urgencyContribution m =
     (if m_urgencyScore m > 3 / 10 then m_urgencyScore m * 12 else 0)"

definition persuasionContribution :: "metrics \<Rightarrow> real" where
  "persuasionContribution m =
     (if m_persuasionScore m > 2 / 10 then min (m_persuasionScore m) 1 * 10 else 0)"

definition llmMultiplier :: "metrics \<Rightarrow> real" where
  "llmMultiplier m = 1 + min (real (m_llmRiskFactors m) * (15 / 100)) (1 / 2)"

definition llmContribution :: "metrics \<Rightarrow> real" where
  "llmContribution m =
     (if m_llmScore m > 25 / 100 then m_llmScore m * 15 * llmMultiplier m else 0)"

definition domainContribution :: "metrics \<Rightarrow> real" where
  "domainContribution m = (m_domainRisk m / 100) * 25"

definition jailbreakContribution :: "metrics \<Rightarrow> real" where
  "jailbreakContribution m =
     (if m_jailbreakHits m > 0
      then min (m_jailbreakHits m * (5 / 2)) 12 *
           (if m_jailbreakCritical m > 0 then 18 / 10 else 1)
      else 0)"

definition manipulationContribution :: "metrics \<Rightarrow> real" where
  "manipulationContribution m =
     (if m_manipulationTechniques m > 0
      then min (real (m_manipulationTechniques m) * 2) 8 else 0)"

definition credibilityPenalty :: "metrics \<Rightarrow> real" where
  "credibilityPenalty m =
     (if m_credibilityScore m < 7 / 10 then (1 - m_credibilityScore m) * \<bar>- 12\<bar> else 0)"

text \<open>The running sum \<^verbatim>\<open>total\<close> before the final \<^verbatim>\<open>Math.min\<close>.\<close>

definition rawTotal :: "metrics \<Rightarrow> real" where
  "rawTotal m =
     aiContribution m + urgencyContribution m + persuasionContribution m +
     llmContribution m + domainContribution m + jailbreakContribution m +
     manipulationContribution m + credibilityPenalty m"

definition computeAdvancedCompositeScore :: "metrics \<Rightarrow> compositeScore" where
  "computeAdvancedCompositeScore m =
     \<lparr> cs_total = min (rawTotal m) 100,
       cs_breakdown =
         \<lparr> b_aiAnalysis = toFixed 2 (aiContribution m),
           b_urgency = toFixed 2 (urgencyContribution m),
           b_persuasion = toFixed 2 (persuasionContribution m),
           b_llmFingerprint = toFixed 2 (llmContribution m),
           b_domainReputation = toFixed 2 (domainContribution m),
           b_jailbreakAttempts = toFixed 2 (jailbreakContribution m),
           b_manipulationTactics = toFixed 2 (manipulationContribution m),
           b_credibilityPenalty = toFixed 2 (credibilityPenalty m) \<rparr>,
       cs_confidence = m_aiConfidence m \<rparr>"

text \<open>The weighted sum as section 4.6 of the specification words it, clamped at both ends.\<close>

definition documentedTotal :: "metrics \<Rightarrow> real" where
  "documentedTotal m =
     max 0 (min 100
       (m_aiProbability m * (m_aiConfidence m) powr (15 / 10) * 20
        + (if m_urgencyScore m > 3 / 10 then m_urgencyScore m * 12 else 0)
        + (if m_persuasionScore m > 2 / 10 then min (m_persuasionScore m) 1 * 10 else 0)
        + (if m_llmScore m > 25 / 100
           then m_llmScore m * 15 * (1 + min (real (m_llmRiskFactors m) * (15 / 100)) (5 / 10))
           else 0)
        + m_domainRisk m / 100 * 25
        + (if m_jailbreakHits m > 0
           then min (m_jailbreakHits m * (25 / 10)) 12 *
                (if m_jailbreakCritical m > 0 then 18 / 10 else 1)
           else 0)
        + min (real (m_manipulationTechniques m) * 2) 8
        + (if m_credibilityScore m < 7 / 10 then (1 - m_credibilityScore m) * 12 else 0)))"

record signalCount =
  sc_count :: nat
  sc_signals :: "string list"

text \<open>The argument object of \<^verbatim>\<open>countIndependentSignals\<close>.\<close>

record signalData =
  sd_aiResult :: aiResult
  sd_llmResult :: llmResult
  sd_domainResult :: "domainResult option"
  sd_jailbreakHits :: real
  sd_urgencyScore :: real
  sd_credentialRisk :: real

definition countIndependentSignals :: "signalData \<Rightarrow> signalCount" where
  "countIndependentSignals d =
     (let signals =
        (if aiProbability (sd_aiResult d) > 7 / 10 \<and> confidence (sd_aiResult d) > 6 / 10
         then [''high_ai_probability''] else []) @
        (if sd_urgencyScore d > 6 / 10 then [''high_urgency''] else []) @
        (case sd_domainResult d of
           None \<Rightarrow> []
         | Some r \<Rightarrow> if dr_riskScore r > 60 then [''domain_risk''] else []) @
        (if sd_jailbreakHits d \<ge> 2 then [''jailbreak_detected''] else []) @
        (if llm_score (sd_llmResult d) > 6 / 10 \<and> length (llm_riskFactors (sd_llmResult d)) > 0
         then [''llm_phishing_pattern''] else []) @
        (if sd_credentialRisk d > 70 then [''credential_risk''] else [])
      in \<lparr> sc_count = length signals, sc_signals = signals \<rparr>)"

text \<open>The six entries of the array \<^verbatim>\<open>criticalConditions\<close>, in the source's order.\<close>

definition criticalConditions ::
  "aiResult \<Rightarrow> llmResult \<Rightarrow> domainResult option \<Rightarrow> real \<Rightarrow> bool list" where
  "criticalConditions ai llm dr jailbreakHits =
     [ (case dr of None \<Rightarrow> False | Some r \<Rightarrow> dr_riskScore r \<ge> 85),
       (case dr of
          None \<Rightarrow> False
        | Some r \<Rightarrow>
            (case dr_typosquatting r of
               None \<Rightarrow> False
             | Some t \<Rightarrow> isTyposquat t \<and> ts_confidence t > 9 / 10)),
       jailbreakHits \<ge> 5,
       urgencyScore ai > 85 / 100 \<and> llm_score llm > 75 / 100,
       length (filter (\<lambda>rf. rf_severity rf = ''critical'') (llm_riskFactors llm)) \<ge> 2,
       length (filter (\<lambda>mt. mt_severity mt = ''high'') (manipulationTechniques ai)) \<ge> 2
         \<and> urgencyScore ai > 7 / 10 ]"

definition deriveEnhancedRiskLevel ::
  "compositeScore \<Rightarrow> aiResult \<Rightarrow> llmResult \<Rightarrow> domainResult option \<Rightarrow> real \<Rightarrow>
   signalCount \<Rightarrow> string" where
  "deriveEnhancedRiskLevel cs ai llm dr jailbreakHits independentSignals =
     (if list_ex (\<lambda>c. c) (criticalConditions ai llm dr jailbreakHits) then ''high''
      else if cs_total cs \<ge> 80 then ''high''
      else if cs_total cs \<ge> 50 then ''medium''
      else if cs_total cs \<ge> 30 then ''low''
      else ''low'')"

text \<open>What \<^verbatim>\<open>JailbreakDetector.scanPage\<close> hands to \<^verbatim>\<open>analyzePage\<close>: the source
  tests \<^verbatim>\<open>typeof jailbreakResult === 'number'\<close> and otherwise reads the members
  \<^verbatim>\<open>totalHits\<close> and \<^verbatim>\<open>criticalHits\<close> of an object (or of null).\<close>

datatype jailbreakResult = JbNumber real | JbObject real nat | JbNull

definition extractJailbreakHits :: "jailbreakResult \<Rightarrow> real" where
  "extractJailbreakHits j =
     (case j of JbNumber n \<Rightarrow> n | JbObject t c \<Rightarrow> t | JbNull \<Rightarrow> 0)"

definition extractJailbreakCritical :: "jailbreakResult \<Rightarrow> nat" where
  "extractJailbreakCritical j =
     (case j of JbNumber n \<Rightarrow> 0 | JbObject t c \<Rightarrow> c | JbNull \<Rightarrow> 0)"

text \<open>The metrics object that \<^verbatim>\<open>analyzePage\<close> builds from the four detector results.\<close>

definition buildMetrics ::
  "aiResult \<Rightarrow> llmResult \<Rightarrow> jailbreakResult \<Rightarrow> domainResult option \<Rightarrow> metrics" where
  "buildMetrics ai llm jb dr =
     \<lparr> m_aiProbability = aiProbability ai,
       m_aiConfidence = confidence ai,
       m_urgencyScore = urgencyScore ai,
       m_persuasionScore = persuasionScore ai,
       m_persuasionCount = length (persuasionFlags ai),
       m_llmScore = llm_score llm,
       m_llmRiskFactors = length (llm_riskFactors llm),
       m_domainRisk = (case dr of None \<Rightarrow> 0 | Some r \<Rightarrow> dr_riskScore r),
       m_jailbreakHits = extractJailbreakHits jb,
       m_jailbreakCritical = extractJailbreakCritical jb,
       m_manipulationTechniques = length (manipulationTechniques ai),
       m_credibilityScore = (if credibilityScore ai = 0 then 1 else credibilityScore ai) \<rparr>"

definition buildSignalData ::
  "aiResult \<Rightarrow> llmResult \<Rightarrow> jailbreakResult \<Rightarrow> domainResult option \<Rightarrow> signalData" where
  "buildSignalData ai llm jb dr =
     \<lparr> sd_aiResult = ai,
       sd_llmResult = llm,
       sd_domainResult = dr,
       sd_jailbreakHits = extractJailbreakHits jb,
       sd_urgencyScore = urgencyScore ai,
       sd_credentialRisk = (case dr of None \<Rightarrow> 0 | Some r \<Rightarrow> dr_riskScore r) \<rparr>"

text \<open>The part of \<^verbatim>\<open>analyzePage\<close> from the detector results to the risk level.\<close>

record assessment =
  as_compositeScore :: compositeScore
  as_independentSignals :: signalCount
  as_riskLevel :: string

definition assess ::
  "aiResult \<Rightarrow> llmResult \<Rightarrow> jailbreakResult \<Rightarrow> domainResult option \<Rightarrow> assessment" where
  "assess ai llm jb dr =
     (let cs = computeAdvancedCompositeScore (buildMetrics ai llm jb dr);
          sig = countIndependentSignals (buildSignalData ai llm jb dr);
          lvl = deriveEnhancedRiskLevel cs ai llm dr (extractJailbreakHits jb) sig
      in \<lparr> as_compositeScore = cs, as_independentSignals = sig, as_riskLevel = lvl \<rparr>)"

text \<open>The first block of notifications of \<^verbatim>\<open>analyzePage\<close>: the message kind shown, if
  any.\<close>

definition riskNotification :: "assessment \<Rightarrow> string option" where
  "riskNotification a =
     (if as_riskLevel a = ''high'' \<and> cs_total (as_compositeScore a) \<ge> 80
         \<and> sc_count (as_independentSignals a) \<ge> 2
      then Some ''warn''
      else if as_riskLevel a = ''medium'' \<and> cs_total (as_compositeScore a) \<ge> 60
         \<and> sc_count (as_independentSignals a) \<ge> 2
      then Some ''info''
      else None)"

text \<open>Inputs used to evaluate the aggregator.\<close>

definition exampleMetrics :: metrics where
  "exampleMetrics =
     \<lparr> m_aiProbability = 1 / 2, m_aiConfidence = 1, m_urgencyScore = 1 / 2,
       m_persuasionScore = 3 / 10, m_persuasionCount = 2, m_llmScore = 4 / 10,
       m_llmRiskFactors = 2, m_domainRisk = 40, m_jailbreakHits = 2,
       m_jailbreakCritical = 1, m_manipulationTechniques = 1,
       m_credibilityScore = 1 / 2 \<rparr>"

definition gateInputAi :: aiResult where
  "gateInputAi =
     \<lparr> aiProbability = 0, confidence = 1, breakdown = [],
       persuasionFlags = [''urgent'', ''official'', ''verified'', ''warning'', ''alert'',
                          ''click here'', ''verify now''],
       persuasionScore = 1, urgencyScore = 6 / 10, urgencyIndicators = [],
       manipulationTechniques =
         [\<lparr> mt_type = ''social_proof'', mt_severity = ''medium'' \<rparr>,
          \<lparr> mt_type = ''false_authority'', mt_severity = ''high'' \<rparr>,
          \<lparr> mt_type = ''reciprocity'', mt_severity = ''low'' \<rparr>,
          \<lparr> mt_type = ''emotional_manipulation'', mt_severity = ''high'' \<rparr>],
       credibilityScore = 1, credibilityFactors = [], recommendation = ''medium'',
       textStats = None \<rparr>"

definition gateInputLlm :: llmResult where
  "gateInputLlm =
     \<lparr> llm_score = 6 / 10, llm_matches = [], llm_totalHits = 12, llm_modelSignatures = [],
       llm_likelyModel = None, llm_contextMultiplier = 15 / 10, llm_heuristics = None,
       llm_riskFactors =
         [\<lparr> rf_type = ''high_urgency_ai_combo'', rf_severity = ''high'' \<rparr>,
          \<lparr> rf_type = ''impersonal_greeting'', rf_severity = ''medium'' \<rparr>,
          \<lparr> rf_type = ''authority_impersonation'', rf_severity = ''high'' \<rparr>,
          \<lparr> rf_type = ''high_risk_context'', rf_severity = ''high'' \<rparr>] \<rparr>"

definition gateInputDomain :: domainResult where
  "gateInputDomain = \<lparr> dr_riskScore = 60, dr_typosquatting = None \<rparr>"


section \<open>The jailbreak scanner (JailbreakDetector)\<close>

text \<open>One entry of \<^verbatim>\<open>result.patterns\<close>, stored under the name of a pattern category.\<close>

record patternHit =
  ph_matches :: "jsString list"
  ph_severity :: string
  ph_weight :: real

record heuristics =
  jh_suspicious :: bool
  jh_suspicionScore :: real
  jh_flags :: "string list"

text \<open>The object returned by \<^verbatim>\<open>analyzeNode\<close>. The member
  \<^verbatim>\<open>patterns.heuristics\<close>, which is not a pattern category, is the field
  \<open>na_heuristics\<close>.\<close>

record nodeAnalysis =
  na_source :: string
  na_hits :: real
  na_maxSeverity :: string
  na_patterns :: "(string \<times> patternHit) list"
  na_heuristics :: "heuristics option"

record results =
  jb_totalHits :: real
  jb_criticalHits :: nat
  jb_detections :: "nodeAnalysis list"
  jb_riskScore :: int

record historyEntry = results +
  timestamp :: nat

text \<open>The inner loop of \<^verbatim>\<open>calculateRiskScore\<close> over the entries of one detection.\<close>

definition addCategoryWeights :: "real \<Rightarrow> nodeAnalysis \<Rightarrow> real" where
  "addCategoryWeights sc detection =
     foldl (\<lambda>s (category, d). if category = ''heuristics'' then s else s + ph_weight d * 20)
       sc (na_patterns detection)"

definition calculateRiskScore :: "'a results_scheme \<Rightarrow> int" where
  "calculateRiskScore r =
     (let score0 = 0 + min (jb_totalHits r * 15) 50;
          score1 = score0 + real (jb_criticalHits r) * 30;
          score2 = foldl addCategoryWeights score1 (jb_detections r)
      in min (mathRound score2) 100)"

text \<open>The formula of section 4.4 of the specification, in its words.\<close>

definition documentedRiskScore :: "'a results_scheme \<Rightarrow> int" where
  "documentedRiskScore r =
     min (mathRound (jb_totalHits r * 15 + real (jb_criticalHits r) * 30 +
            (\<Sum>d \<leftarrow> jb_detections r. \<Sum>(c, p) \<leftarrow> na_patterns d. ph_weight p * 20)))
         100"

text \<open>The page as \<^verbatim>\<open>scanPage\<close> queries it: the script elements, and the elements
  carrying a given attribute.\<close>

record 'n page =
  scripts :: "'n list"
  withAttribute :: "string \<Rightarrow> 'n list"

definition eventHandlers :: "string list" where
  "eventHandlers = [''onerror'', ''onload'', ''onclick'', ''onmouseover'', ''onfocus'']"

definition suspiciousAttributes :: "string list" where
  "suspiciousAttributes = [''data-instructions'', ''data-prompt'', ''data-system'']"

text \<open>The body of each \<^verbatim>\<open>forEach\<close> callback of \<^verbatim>\<open>scanPage\<close>; \<open>always\<close> is set in
  the loop over the suspicious attributes, which counts every retained analysis as critical.\<close>

definition addAnalysis :: "bool \<Rightarrow> results \<Rightarrow> nodeAnalysis \<Rightarrow> results" where
  "addAnalysis always r a =
     (if na_hits a > 0
      then r\<lparr> jb_detections := jb_detections r @ [a],
               jb_totalHits := jb_totalHits r + na_hits a,
               jb_criticalHits :=
                 (if always \<or> na_maxSeverity a = ''critical''
                  then jb_criticalHits r + 1 else jb_criticalHits r) \<rparr>
      else r)"

text \<open>The analyses in the order in which \<^verbatim>\<open>scanPage\<close> makes them; \<open>analyzeNode\<close> (the
  regular-expression matching of one node) is a parameter.\<close>

definition scriptAnalyses :: "('n \<Rightarrow> string \<Rightarrow> nodeAnalysis) \<Rightarrow> 'n page \<Rightarrow> nodeAnalysis list" where
  "scriptAnalyses analyzeNode pg = map (\<lambda>n. analyzeNode n ''script'') (scripts pg)"

definition attributeAnalyses ::
  "('n \<Rightarrow> string \<Rightarrow> nodeAnalysis) \<Rightarrow> 'n page \<Rightarrow> string list \<Rightarrow> nodeAnalysis list" where
  "attributeAnalyses analyzeNode pg names =
     concat (map (\<lambda>a. map (\<lambda>n. analyzeNode n a) (withAttribute pg a)) names)"

definition scanResults :: "('n \<Rightarrow> string \<Rightarrow> nodeAnalysis) \<Rightarrow> 'n page \<Rightarrow> results" where
  "scanResults analyzeNode pg =
     (let r0 = \<lparr> jb_totalHits = 0, jb_criticalHits = 0, jb_detections = [], jb_riskScore = 0 \<rparr>;
          r1 = foldl (addAnalysis False) r0 (scriptAnalyses analyzeNode pg);
          r2 = foldl (addAnalysis False) r1 (attributeAnalyses analyzeNode pg eventHandlers);
          r3 = foldl (addAnalysis True) r2 (attributeAnalyses analyzeNode pg suspiciousAttributes)
      in r3\<lparr> jb_riskScore := calculateRiskScore r3 \<rparr>)"

definition scanWarning :: "results \<Rightarrow> string option" where
  "scanWarning r =
     (if jb_criticalHits r \<ge> 2 then Some ''Critical''
      else if jb_totalHits r \<ge> 5 then Some ''Warning''
      else None)"

definition detectEscalatingThreat :: "historyEntry list \<Rightarrow> bool" where
  "detectEscalatingThreat history =
     (if length history < 3 then False
      else (let recentScores = map jb_riskScore (drop (length history - 3) history)
            in recentScores ! 0 < recentScores ! 1 \<and> recentScores ! 1 < recentScores ! 2))"

text \<open>\<^verbatim>\<open>updateDetectionHistory\<close>: the clock and the host name of the page are arguments;
  the result is the new \<^verbatim>\<open>detectionHistory\<close> and whether the escalation alert is
  raised.\<close>

definition updateDetectionHistory ::
  "nat \<Rightarrow> string \<Rightarrow> results \<Rightarrow> (string \<rightharpoonup> historyEntry list) \<Rightarrow>
   (string \<rightharpoonup> historyEntry list) \<times> bool" where
  "updateDetectionHistory now key r detectionHistory =
     (let h0 = (case detectionHistory key of None \<Rightarrow> [] | Some h \<Rightarrow> h);
          h1 = h0 @ [results.extend r \<lparr> timestamp = now \<rparr>];
          h2 = (if length h1 > 10 then tl h1 else h1)
      in (detectionHistory(key \<mapsto> h2), detectEscalatingThreat h2))"

text \<open>\<^verbatim>\<open>scanPage\<close>: the number returned, with the new history and the warnings raised.\<close>

definition scanPage ::
  "('n \<Rightarrow> string \<Rightarrow> nodeAnalysis) \<Rightarrow> nat \<Rightarrow> string \<Rightarrow> 'n page \<Rightarrow>
   (string \<rightharpoonup> historyEntry list) \<Rightarrow>
   real \<times> (string \<rightharpoonup> historyEntry list) \<times> string option \<times> bool" where
  "scanPage analyzeNode now key pg detectionHistory =
     (let r = scanResults analyzeNode pg;
          (h, alert) = updateDetectionHistory now key r detectionHistory
      in (jb_totalHits r, h, scanWarning r, alert))"

text \<open>A session: the scans of pages made one after the other by one detector, which starts
  with an empty history.\<close>

fun scanAll ::
  "('n \<Rightarrow> string \<Rightarrow> nodeAnalysis) \<Rightarrow> (nat \<times> string \<times> 'n page) list \<Rightarrow>
   (string \<rightharpoonup> historyEntry list) \<Rightarrow> (string \<rightharpoonup> historyEntry list)" where
  "scanAll analyzeNode [] h = h"
| "scanAll analyzeNode ((now, key, pg) # rest) h =
     scanAll analyzeNode rest (fst (snd (scanPage analyzeNode now key pg h)))"

text \<open>A script whose text repeats a reverse-psychology phrase four times.\<close>

definition cappedExample :: results where
  "cappedExample =
     \<lparr> jb_totalHits = 4, jb_criticalHits = 0,
       jb_detections =
         [\<lparr> na_source = ''script'', na_hits = 4, na_maxSeverity = ''low'',
            na_patterns =
              [(''reversePsychology'',
                \<lparr> ph_matches = [ascii ''do not tell''], ph_severity = ''low'',
                  ph_weight = 1 / 10 \<rparr>)],
            na_heuristics = None \<rparr>],
       jb_riskScore = 0 \<rparr>"


section \<open>Domain risk in the background worker (background/serviceWorker.js)\<close>

datatype jsError = TypeError

record localSignals =
  typosquatLikelihood :: real
  entropy :: real
  isPunycode :: bool
  parts :: "string list"

text \<open>What \<^verbatim>\<open>queryVirusTotal\<close> resolves to: the three counters, or an object with only
  an \<^verbatim>\<open>error\<close> member.\<close>

datatype vtResult = VtStats real real real | VtError string

text \<open>What \<^verbatim>\<open>querySafeBrowsing\<close> resolves to: the JSON of the reply, of which the
  length of \<^verbatim>\<open>matches\<close> is read (no such member: \<open>None\<close>), or an error object.\<close>

datatype gsbResult = GsbReply "nat option" | GsbError string

text \<open>The bundle; each member is null (\<open>None\<close>) when its API key is not configured.\<close>

record remoteSignals =
  rs_vtResult :: "vtResult option"
  rs_gsbResult :: "gsbResult option"

definition fetchRemoteSignals ::
  "string option \<Rightarrow> string option \<Rightarrow> (string \<Rightarrow> string \<Rightarrow> vtResult) \<Rightarrow>
   (string \<Rightarrow> string \<Rightarrow> gsbResult) \<Rightarrow> string \<Rightarrow> remoteSignals" where
  "fetchRemoteSignals vtApiKey gsbApiKey queryVirusTotal querySafeBrowsing domain =
     \<lparr> rs_vtResult = (case vtApiKey of None \<Rightarrow> None | Some k \<Rightarrow> Some (queryVirusTotal domain k)),
       rs_gsbResult =
         (case gsbApiKey of None \<Rightarrow> None | Some k \<Rightarrow> Some (querySafeBrowsing domain k)) \<rparr>"

text \<open>\<^verbatim>\<open>remoteSignals.vtResult?.malicious > 0\<close>\<close>

definition vtMalicious :: "vtResult option \<Rightarrow> bool" where
  "vtMalicious v = (case v of Some (VtStats h m s) \<Rightarrow> m > 0 | _ \<Rightarrow> False)"

text \<open>\<^verbatim>\<open>remoteSignals.gsbResult?.matches?.length\<close> as a condition\<close>

definition gsbMatched :: "gsbResult option \<Rightarrow> bool" where
  "gsbMatched g = (case g of Some (GsbReply (Some n)) \<Rightarrow> n \<noteq> 0 | _ \<Rightarrow> False)"

definition localScore :: "localSignals \<Rightarrow> real" where
  "localScore l =
     (let s0 = 0;
          s1 = (if typosquatLikelihood l > 6 / 10 then s0 + 35 else s0);
          s2 = (if entropy l > 4 then s1 + 15 else s1);
          s3 = (if isPunycode l then s2 + 25 else s2)
      in s3)"

text \<open>\<^verbatim>\<open>scoreDomainRisk\<close>; the bundle is \<open>None\<close> for null, and reading a member of null
  throws.\<close>

definition scoreDomainRisk :: "localSignals \<Rightarrow> remoteSignals option \<Rightarrow> jsError + real" where
  "scoreDomainRisk l remote =
     (let s3 = localScore l in
      case remote of
        None \<Rightarrow> Inl TypeError
      | Some r \<Rightarrow>
          (let s4 = (if vtMalicious (rs_vtResult r) then s3 + 30 else s3);
               s5 = (if gsbMatched (rs_gsbResult r) then s4 + 30 else s4)
           in Inr (min s5 100)))"

text \<open>The analyses that \<^verbatim>\<open>scanPage\<close> retains, and the sum its risk score takes over
  their pattern categories.\<close>

definition retained :: "nodeAnalysis list \<Rightarrow> nodeAnalysis list" where
  "retained xs = filter (\<lambda>a. na_hits a > 0) xs"

definition categoryWeightSum :: "nodeAnalysis list \<Rightarrow> real" where
  "categoryWeightSum ds =
     (\<Sum>d \<leftarrow> ds. \<Sum>(c, p) \<leftarrow> filter (\<lambda>(c, p). c \<noteq> ''heuristics'') (na_patterns d).
        ph_weight p * 20)"

definition historyBounded :: "(string \<rightharpoonup> historyEntry list) \<Rightarrow> bool" where
  "historyBounded H = (\<forall>k h. H k = Some h \<longrightarrow> length h \<le> 10)"

text \<open>A session of eleven scans of one host, whose page holds one script with \<open>t mod 4\<close>
  hits at time \<open>t\<close>.\<close>

definition hitsAnalysis :: "nat \<Rightarrow> string \<Rightarrow> nodeAnalysis" where
  "hitsAnalysis n src =
     \<lparr> na_source = src, na_hits = real n, na_maxSeverity = ''low'', na_patterns = [],
       na_heuristics = None \<rparr>"

definition scriptPage :: "nat \<Rightarrow> nat page" where
  "scriptPage n = \<lparr> scripts = [n], withAttribute = (\<lambda>a. []) \<rparr>"

definition exampleScans :: "(nat \<times> string \<times> nat page) list" where
  "exampleScans = map (\<lambda>t. (t, ''shop.example'', scriptPage (t mod 4))) [1 ..< 12]"

definition exampleEntry :: "nat \<Rightarrow> historyEntry" where
  "exampleEntry t =
     (if t mod 4 = 0
      then \<lparr> jb_totalHits = 0, jb_criticalHits = 0, jb_detections = [], jb_riskScore = 0,
             timestamp = t \<rparr>
      else \<lparr> jb_totalHits = real (t mod 4), jb_criticalHits = 0,
             jb_detections = [hitsAnalysis (t mod 4) ''script''],
             jb_riskScore = 15 * int (t mod 4), timestamp = t \<rparr>)"

section \<open>Edit distance (content/detectors/utils.js and background/serviceWorker.js)\<close>

text \<open>A string is the list of its code units. The matrix is an array of rows; every write of
  the two functions is inside the bounds that \<^verbatim>\<open>Array.from\<close> and \<^verbatim>\<open>fill\<close> set
  up, so no array is ever extended.\<close>

type_synonym matrix = "nat list list"

text \<open>\<^verbatim>\<open>matrix[i][j] = v\<close>\<close>

definition setCell :: "matrix \<Rightarrow> nat \<Rightarrow> nat \<Rightarrow> nat \<Rightarrow> matrix" where
  "setCell m i j v = m[i := (m ! i)[j := v]]"

definition initMatrix :: "'a list \<Rightarrow> 'a list \<Rightarrow> matrix" where
  "initMatrix a b = replicate (length a + 1) (replicate (length b + 1) 0)"

definition fillFirstColumn :: "'a list \<Rightarrow> matrix \<Rightarrow> matrix" where
  "fillFirstColumn a m = foldl (\<lambda>m i. setCell m i 0 i) m [0 ..< length a + 1]"

definition fillFirstRow :: "'a list \<Rightarrow> matrix \<Rightarrow> matrix" where
  "fillFirstRow b m = foldl (\<lambda>m j. setCell m 0 j j) m [0 ..< length b + 1]"

definition cellStep :: "'a list \<Rightarrow> 'a list \<Rightarrow> nat \<Rightarrow> matrix \<Rightarrow> nat \<Rightarrow> matrix" where
  "cellStep a b i m j =
     (let cost = (if a ! (i - 1) = b ! (j - 1) then 0 else 1)
      in setCell m i j
           (min (min (m ! (i - 1) ! j + 1) (m ! i ! (j - 1) + 1)) (m ! (i - 1) ! (j - 1) + cost)))"

definition rowStep :: "'a list \<Rightarrow> 'a list \<Rightarrow> matrix \<Rightarrow> nat \<Rightarrow> matrix" where
  "rowStep a b m i = foldl (cellStep a b i) m [1 ..< length b + 1]"

definition fillMatrix :: "'a list \<Rightarrow> 'a list \<Rightarrow> matrix \<Rightarrow> matrix" where
  "fillMatrix a b m = foldl (rowStep a b) m [1 ..< length a + 1]"

text \<open>\<^verbatim>\<open>levenshteinDistance\<close> of the content scripts (\<^verbatim>\<open>VigilUtils\<close>).\<close>

definition levenshteinDistance :: "'a list \<Rightarrow> 'a list \<Rightarrow> nat" where
  "levenshteinDistance a b =
     fillMatrix a b (fillFirstRow b (fillFirstColumn a (initMatrix a b))) ! length a ! length b"

text \<open>\<^verbatim>\<open>levenshtein\<close> of the background worker: the same three loops.\<close>

definition levenshtein :: "'a list \<Rightarrow> 'a list \<Rightarrow> nat" where
  "levenshtein a b =
     fillMatrix a b (fillFirstRow b (fillFirstColumn a (initMatrix a b))) ! length a ! length b"

section \<open>Typosquat analysis (DomainReputation)\<close>

definition commonDomains :: "string list" where
  "commonDomains =
     [''google'', ''facebook'', ''microsoft'', ''apple'', ''amazon'', ''netflix'', ''twitter'',
      ''instagram'', ''linkedin'', ''youtube'', ''zoom'', ''slack'', ''dropbox'', ''adobe'',
      ''paypal'', ''chase'', ''bankofamerica'', ''wellsfargo'', ''citibank'', ''usbank'',
      ''capitalone'', ''americanexpress'', ''discover'', ''visa'', ''mastercard'',
      ''ebay'', ''walmart'', ''target'', ''bestbuy'', ''costco'', ''etsy'',
      ''outlook'', ''gmail'', ''yahoo'', ''protonmail'', ''icloud'',
      ''coinbase'', ''binance'', ''kraken'', ''blockchain'', ''crypto'',
      ''irs'', ''usps'', ''fedex'', ''ups'', ''dhl'']"

text \<open>\<^verbatim>\<open>s.split(".")\<close>: the pieces between the separators, never an empty array.\<close>

fun splitOn :: "char \<Rightarrow> string \<Rightarrow> string list" where
  "splitOn sep [] = [[]]"
| "splitOn sep (c # cs) =
     (if c = sep then [] # splitOn sep cs
      else (case splitOn sep cs of p # ps \<Rightarrow> (c # p) # ps | [] \<Rightarrow> [[c]]))"

text \<open>\<^verbatim>\<open>domain.split(".")[0]\<close>\<close>

definition baseLabel :: "string \<Rightarrow> string" where
  "baseLabel domain = hd (splitOn CHR ''.'' domain)"

fun startsWith :: "'a list \<Rightarrow> 'a list \<Rightarrow> bool" where
  "startsWith s [] = True"
| "startsWith [] (c # t) = False"
| "startsWith (d # s) (c # t) = (d = c \<and> startsWith s t)"

text \<open>\<^verbatim>\<open>s.includes(t)\<close>\<close>

fun stringIncludes :: "'a list \<Rightarrow> 'a list \<Rightarrow> bool" where
  "stringIncludes [] t = startsWith [] t"
| "stringIncludes (d # s) t = (startsWith (d # s) t \<or> stringIncludes s t)"

text \<open>\<^verbatim>\<open>target.replace(new RegExp(original, 'g'), replacement)\<close> for the one-character
  patterns and replacements of the table.\<close>

definition replaceAll :: "char \<Rightarrow> string \<Rightarrow> string \<Rightarrow> string" where
  "replaceAll original replacement target =
     concat (map (\<lambda>c. if c = original then replacement else [c]) target)"

definition substitutions :: "(char \<times> string list) list" where
  "substitutions =
     [(CHR ''l'', [''1'', ''i'']),
      (CHR ''i'', [''l'', ''1'']),
      (CHR ''o'', [''0'']),
      (CHR ''0'', [''o'']),
      (CHR ''s'', [''5'', ''$'']),
      (CHR ''a'', [''@'']),
      (CHR ''e'', [''3'']),
      (CHR ''g'', [''9'']),
      (CHR ''b'', [''8''])]"

definition checkCharacterSubstitution :: "string \<Rightarrow> string \<Rightarrow> bool" where
  "checkCharacterSubstitution squat target =
     list_ex (\<lambda>(original, replacements).
        list_ex (\<lambda>replacement. squat = replaceAll original replacement target) replacements)
       substitutions"

definition identifyTyposquatTechnique :: "string \<Rightarrow> string \<Rightarrow> string" where
  "identifyTyposquatTechnique squat target =
     (if length squat = length target + 1 then ''insertion''
      else if length squat + 1 = length target then ''omission''
      else if length squat = length target then
        (if list_ex (\<lambda>i. squat ! i = target ! (i + 1) \<and> squat ! (i + 1) = target ! i)
              [0 ..< length target - 1]
         then ''transposition'' else ''substitution'')
      else ''unknown'')"

definition typosquatStep :: "string \<Rightarrow> typosquatting \<Rightarrow> string \<Rightarrow> typosquatting" where
  "typosquatStep baseDomain results target =
     (let dist = levenshteinDistance baseDomain target;
          r1 = (if dist \<le> 2 \<and> (case distance results of None \<Rightarrow> True | Some d \<Rightarrow> dist < d)
                then results\<lparr> isTyposquat := True, likelyTarget := Some target,
                       distance := Some dist,
                       ts_confidence :=
                         1 - real dist / real (max (length baseDomain) (length target)),
                       technique :=
                         (if dist = 1
                          then Some (identifyTyposquatTechnique baseDomain target)
                          else technique results) \<rparr>
                else results);
          r2 = (if checkCharacterSubstitution baseDomain target
                then r1\<lparr> isTyposquat := True, likelyTarget := Some target,
                       technique := Some ''character_substitution'',
                       ts_confidence := 9 / 10 \<rparr>
                else r1);
          r3 = (if stringIncludes baseDomain target \<and> baseDomain \<noteq> target
                then r2\<lparr> isTyposquat := True, likelyTarget := Some target,
                       technique := Some ''combosquatting'',
                       ts_confidence := 85 / 100 \<rparr>
                else r2)
      in r3)"

definition advancedTyposquatAnalysis :: "string \<Rightarrow> typosquatting" where
  "advancedTyposquatAnalysis domain =
     foldl (typosquatStep (baseLabel domain))
       \<lparr> isTyposquat = False, likelyTarget = None, distance = None, technique = None,
         ts_confidence = 0 \<rparr>
       commonDomains"

text \<open>The unit-cost edit distance: the least number of insertions, deletions and
  substitutions of one character that turn one string into the other. \<open>edits n xs ys\<close>
  says that \<open>n\<close> such operations, applied from left to right, turn \<open>xs\<close> into \<open>ys\<close>;
  \<open>editDistance\<close> computes the least such \<open>n\<close>.\<close>

fun editDistance :: "'a list \<Rightarrow> 'a list \<Rightarrow> nat" where
  "editDistance [] ys = length ys"
| "editDistance (x # xs) [] = length (x # xs)"
| "editDistance (x # xs) (y # ys) =
     min (min (editDistance xs (y # ys) + 1) (editDistance (x # xs) ys + 1))
         (editDistance xs ys + (if x = y then 0 else 1))"

inductive edits :: "nat \<Rightarrow> 'a list \<Rightarrow> 'a list \<Rightarrow> bool" where
  Done: "edits 0 [] []"
| Delete: "edits n xs ys \<Longrightarrow> edits (Suc n) (x # xs) ys"
| Insert: "edits n xs ys \<Longrightarrow> edits (Suc n) xs (y # ys)"
| Keep: "edits n xs ys \<Longrightarrow> edits n (x # xs) (x # ys)"
| Substitute: "edits n xs ys \<Longrightarrow> edits (Suc n) (x # xs) (y # ys)"

text \<open>The invariants of the three loops.\<close>

definition prefixDistance :: "'a list \<Rightarrow> 'a list \<Rightarrow> nat \<Rightarrow> nat \<Rightarrow> nat" where
  "prefixDistance a b i j = editDistance (rev (take i a)) (rev (take j b))"

definition wellShaped :: "nat \<Rightarrow> nat \<Rightarrow> matrix \<Rightarrow> bool" where
  "wellShaped n k m = (length m = Suc n \<and> (\<forall>i \<le> n. length (m ! i) = Suc k))"

definition columnFilled :: "nat \<Rightarrow> nat \<Rightarrow> nat \<Rightarrow> matrix \<Rightarrow> bool" where
  "columnFilled n k i m = (wellShaped n k m \<and> (\<forall>i' < i. m ! i' ! 0 = i'))"

definition rowFilled :: "nat \<Rightarrow> nat \<Rightarrow> nat \<Rightarrow> matrix \<Rightarrow> bool" where
  "rowFilled n k j m =
     (wellShaped n k m \<and> (\<forall>i \<le> n. m ! i ! 0 = i) \<and> (\<forall>j' < j. m ! 0 ! j' = j'))"

text \<open>Rows below \<open>i\<close> hold the distances of the prefixes, and so does column 0.\<close>

definition rowsDone :: "'a list \<Rightarrow> 'a list \<Rightarrow> nat \<Rightarrow> matrix \<Rightarrow> bool" where
  "rowsDone a b i m =
     (wellShaped (length a) (length b) m
      \<and> (\<forall>i' \<le> length a. m ! i' ! 0 = i')
      \<and> (\<forall>i' < i. \<forall>j' \<le> length b. m ! i' ! j' = prefixDistance a b i' j'))"

definition cellsDone :: "'a list \<Rightarrow> 'a list \<Rightarrow> nat \<Rightarrow> nat \<Rightarrow> matrix \<Rightarrow> bool" where
  "cellsDone a b i j m =
     (rowsDone a b i m \<and> (\<forall>j' < j. m ! i ! j' = prefixDistance a b i j'))"

section \<open>The AI-text analyzer (AITextAnalyzer)\<close>

text \<open>\<^verbatim>\<open>this.aiSignatures\<close>: category, stored patterns, weight.\<close>

definition aiSignatures :: "(string \<times> regex list \<times> real) list" where
  "aiSignatures =
     [(''politenessMarkers'', patternsOf ''politenessMarkers'' 3, 15 / 100),
      (''structureMarkers'', patternsOf ''structureMarkers'' 4, 12 / 100),
      (''formalityMarkers'', patternsOf ''formalityMarkers'' 3, 10 / 100),
      (''hedgingMarkers'', patternsOf ''hedgingMarkers'' 3, 8 / 100),
      (''enumerationMarkers'', patternsOf ''enumerationMarkers'' 3, 5 / 100)]"

definition linguisticStep ::
  "engine \<Rightarrow> jsString \<Rightarrow> real \<times> regexState \<Rightarrow> string \<times> regex list \<times> real \<Rightarrow>
   real \<times> regexState" where
  "linguisticStep e text acc config =
     (case acc of (sc, st) \<Rightarrow>
      case config of (category, patterns, weight) \<Rightarrow>
        (let (found, st') = matchCategory e text patterns st;
             categoryHits = length found;
             categoryScore = min ((real categoryHits / 10) * weight) weight
         in (sc + categoryScore, st')))"

definition calculateLinguisticAIScore ::
  "engine \<Rightarrow> jsString \<Rightarrow> regexState \<Rightarrow> real \<times> regexState" where
  "calculateLinguisticAIScore e text st =
     (let (sc, st') = foldl (linguisticStep e text) (0, st) aiSignatures
      in (min sc 1, st'))"

text \<open>\<^verbatim>\<open>text.split(/[.!?]+/).filter(s => s.trim().length > n)\<close>\<close>

definition sentencesLongerThan :: "engine \<Rightarrow> nat \<Rightarrow> jsString \<Rightarrow> jsString list" where
  "sentencesLongerThan e n text =
     filter (\<lambda>s. length (trim s) > n) (splitRe e (Literal ''[.!?]+'') text)"

text \<open>\<^verbatim>\<open>s.trim().split(/\s+/).length\<close>\<close>

definition wordsInSentence :: "engine \<Rightarrow> jsString \<Rightarrow> nat" where
  "wordsInSentence e s = length (splitRe e (Literal ''whitespace+'') (trim s))"

definition calculateStatisticalAIScore :: "engine \<Rightarrow> jsString \<Rightarrow> real" where
  "calculateStatisticalAIScore e text =
     (let sentences = sentencesLongerThan e 5 text in
      if length sentences < 3 then 0
      else
        (let sentenceLengths = map (\<lambda>s. real (wordsInSentence e s)) sentences;
             avgLength = sum_list sentenceLengths / real (length sentenceLengths);
             variance = calculateVariance sentenceLengths;
             stdDev = sqrt variance;
             consistencyScore = (if variance < 20 then 2 / 10 else 0);
             lengthScore = (if avgLength \<ge> 15 \<and> avgLength \<le> 25 then 15 / 100 else 0);
             variabilityScore =
               (if avgLength \<noteq> 0 \<and> stdDev / avgLength < 4 / 10 then 15 / 100 else 0);
             words = filter (\<lambda>w. length w > 2) (splitRe e (Literal ''whitespace+'') text);
             uniqueWords = dedupe (map toLowerCase words);
             ttr = real (length uniqueWords) / real (length words);
             diversityScore =
               (if words \<noteq> [] \<and> ttr \<ge> 4 / 10 \<and> ttr \<le> 6 / 10 then 1 / 10 else 0)
         in consistencyScore + lengthScore + variabilityScore + diversityScore))"

definition calculateSemanticAIScore :: "engine \<Rightarrow> jsString \<Rightarrow> real" where
  "calculateSemanticAIScore e text =
     (let words = length (splitRe e (Literal ''whitespace+'') text);
          s0 = 0;
          repetitiveStartMatches = matchAll e (Literal ''repetitiveStarts'') text;
          s1 = (if ratioExceeds (length repetitiveStartMatches) words (5 / 100)
                then s0 + 1 / 10 else s0);
          weakVerbMatches = matchAll e (Literal ''weakVerbs'') text;
          s2 = (if ratioExceeds (length weakVerbMatches) words (15 / 100)
                then s1 + 1 / 10 else s1);
          passiveMatches = matchAll e (Literal ''passiveVoice'') text;
          s3 = (if length passiveMatches > 2 then s2 + 1 / 10 else s2)
      in min s3 (3 / 10))"

definition calculateStructuralAIScore :: "engine \<Rightarrow> jsString \<Rightarrow> real" where
  "calculateStructuralAIScore e originalText =
     (let paragraphs = filter (\<lambda>p. length (trim p) > 0)
                         (splitRe e (Literal ''paragraphBreak'') originalText);
          hasBulletPoints = testRe e (Literal ''bulletPoints'') originalText;
          hasNumberedLists = testRe e (Literal ''numberedLists'') originalText;
          s0 = 0;
          s1 = (if hasBulletPoints then s0 + 1 / 10 else s0);
          s2 = (if hasNumberedLists then s1 + 1 / 10 else s1);
          avgParaLength =
            (if length paragraphs > 0
             then real (foldl (\<lambda>sum p. sum + length (splitRe e (Literal ''[.!?]+'') p))
                          0 paragraphs)
                  / real (length paragraphs)
             else 0);
          s3 = (if avgParaLength \<ge> 3 \<and> avgParaLength \<le> 6 then s2 + 1 / 10 else s2)
      in min s3 (3 / 10))"

text \<open>The four sub-scores, in the order of the object \<^verbatim>\<open>components\<close>.\<close>

record components =
  linguistic :: real
  statistical :: real
  semantic :: real
  structural :: real

record aiScore =
  probability :: real
  as_confidence :: real
  as_breakdown :: "(string \<times> componentEntry) list"

definition componentWeights :: "(string \<times> (components \<Rightarrow> real) \<times> real) list" where
  "componentWeights =
     [(''linguistic'', linguistic, 35 / 100),
      (''statistical'', statistical, 30 / 100),
      (''semantic'', semantic, 20 / 100),
      (''structural'', structural, 15 / 100)]"

definition calculateCompositeAIScore :: "components \<Rightarrow> aiScore" where
  "calculateCompositeAIScore c =
     (let totalScore =
            foldl (\<lambda>t (component, sel, weight). t + sel c * weight) 0 componentWeights;
          bd = map (\<lambda>(component, sel, weight).
                      (component,
                       \<lparr> ce_score = toFixed 3 (sel c), ce_weight = weight,
                         ce_contribution = toFixed 3 (sel c * weight) \<rparr>))
                 componentWeights;
          scores = [linguistic c, statistical c, semantic c, structural c];
          variance = calculateVariance scores;
          conf = max 0 (1 - variance)
      in \<lparr> probability = min totalScore 1, as_confidence = toFixed 3 conf,
           as_breakdown = bd \<rparr>)"

definition persuasionTechniques :: "(string \<times> string list) list" where
  "persuasionTechniques =
     [(''urgency'',
       [''urgent'', ''immediately'', ''right now'', ''asap'', ''hurry'', ''limited time'',
        ''expires soon'', ''act now'', ''don't wait'', ''time-sensitive'', ''last chance'']),
      (''scarcity'',
       [''limited supply'', ''only a few left'', ''exclusive offer'', ''while supplies last'',
        ''limited availability'', ''rare opportunity'']),
      (''authority'',
       [''official'', ''verified'', ''certified'', ''authorized'', ''government'',
        ''legal notice'', ''compliance required'']),
      (''fear'',
       [''account suspended'', ''security breach'', ''unauthorized access'',
        ''fraud detected'', ''suspicious activity'', ''locked out'', ''compromised'',
        ''at risk'', ''warning'', ''alert'']),
      (''reward'',
       [''free gift'', ''bonus'', ''prize'', ''winner'', ''congratulations'', ''reward'',
        ''cash back'', ''discount'', ''special offer'']),
      (''social'',
       [''everyone is'', ''most people'', ''join millions'', ''trending'', ''popular choice'',
        ''highly rated'']),
      (''action'',
       [''click here'', ''verify now'', ''confirm identity'', ''update immediately'',
        ''act now'', ''respond now'', ''call now'', ''download now''])]"

record persuasion =
  p_flags :: "string list"
  p_score :: real
  p_categories :: "(string \<times> nat) list"

text \<open>The body of the loop over the techniques: flags, category counts and score so far.\<close>

definition persuasionStep ::
  "jsString \<Rightarrow> string list \<times> (string \<times> nat) list \<times> real \<Rightarrow> string \<times> string list \<Rightarrow>
   string list \<times> (string \<times> nat) list \<times> real" where
  "persuasionStep text acc entry =
     (case acc of (flags, categoryScores, totalScore) \<Rightarrow>
      case entry of (category, keywords) \<Rightarrow>
        (let matched = filter (\<lambda>keyword. stringIncludes text (toLowerCase (ascii keyword)))
                         keywords
         in if length matched > 0
            then (flags @ matched, categoryScores @ [(category, length matched)],
                  totalScore + real (length matched) * (15 / 100))
            else (flags, categoryScores, totalScore)))"

definition detectPersuasionPatterns :: "jsString \<Rightarrow> persuasion" where
  "detectPersuasionPatterns text =
     (case foldl (persuasionStep text) ([], [], 0) persuasionTechniques of
        (flags, categoryScores, totalScore) \<Rightarrow>
          \<lparr> p_flags = dedupe flags, p_score = min totalScore 1,
            p_categories = categoryScores \<rparr>)"

text \<open>The table \<^verbatim>\<open>urgencyIndicators\<close> is built in each call, so its patterns carry no
  state.\<close>

definition urgencyPatterns :: "(string \<times> regex) list" where
  "urgencyPatterns =
     map (Pair ''timeConstraints'') (patternsOf ''timeConstraints'' 4) @
     map (Pair ''consequenceThreats'') (patternsOf ''consequenceThreats'' 4) @
     map (Pair ''imperativeLanguage'') (patternsOf ''imperativeLanguage'' 3) @
     map (Pair ''stressMarkers'') (patternsOf ''stressMarkers'' 3)"

text \<open>\<^verbatim>\<open>(originalText.match(/!/g) || []).length\<close>\<close>

definition exclamationCount :: "jsString \<Rightarrow> nat" where
  "exclamationCount originalText = length (filter (\<lambda>u. u = 33) originalText)"

record urgency =
  u_score :: real
  u_indicators :: "(string \<times> nat) list"
  u_exclamationCount :: nat

text \<open>The body of the loop over the patterns: indicators and score so far.\<close>

definition urgencyStep ::
  "engine \<Rightarrow> jsString \<Rightarrow> (string \<times> nat) list \<times> real \<Rightarrow> string \<times> regex \<Rightarrow>
   (string \<times> nat) list \<times> real" where
  "urgencyStep e originalText acc entry =
     (case acc of (indicators, sc) \<Rightarrow>
      case entry of (category, pattern) \<Rightarrow>
        (let found = matchAll e pattern originalText
         in if length found > 0
            then (indicators @ [(category, length found)], sc + real (length found) * (2 / 10))
            else (indicators, sc)))"

definition measureUrgencyTactics :: "engine \<Rightarrow> jsString \<Rightarrow> urgency" where
  "measureUrgencyTactics e originalText =
     (case foldl (urgencyStep e originalText) ([], 0) urgencyPatterns of
        (indicators, sc) \<Rightarrow>
          (let n = exclamationCount originalText;
               sc' = (if n > 3 then sc + min (real n * (5 / 100)) (3 / 10) else sc)
           in \<lparr> u_score = min sc' 1, u_indicators = indicators, u_exclamationCount = n \<rparr>))"

definition detectManipulationTechniques :: "engine \<Rightarrow> jsString \<Rightarrow> manipulationTechnique list" where
  "detectManipulationTechniques e text =
     (if testRe e (Literal ''socialProof'') text
      then [\<lparr> mt_type = ''social_proof'', mt_severity = ''medium'' \<rparr>] else []) @
     (if testRe e (Literal ''falseAuthority'') text
      then [\<lparr> mt_type = ''false_authority'', mt_severity = ''high'' \<rparr>] else []) @
     (if testRe e (Literal ''freeGiftOrOffer'') text \<and> testRe e (Literal ''limitedExpireHurry'') text
      then [\<lparr> mt_type = ''reciprocity'', mt_severity = ''low'' \<rparr>] else []) @
     (if testRe e (Literal ''emotional'') text
      then [\<lparr> mt_type = ''emotional_manipulation'', mt_severity = ''high'' \<rparr>] else [])"

record credibility =
  cr_score :: real
  cr_factors :: "(string \<times> string) list"

definition assessCredibilitySignals :: "engine \<Rightarrow> jsString \<Rightarrow> jsString \<Rightarrow> credibility" where
  "assessCredibilitySignals e text originalText =
     (let c0 = 1; f0 = [];
          (c1, f1) = (if testRe e (Literal ''clickHere'') text
                      then (c0 - 15 / 100, f0 @ [(''negative'', ''Generic 'click here' links'')])
                      else (c0, f0));
          (c2, f2) = (if testRe e (Literal ''dearCustomer'') text
                      then (c1 - 2 / 10,
                            f1 @ [(''negative'', ''Generic greeting (not personalized)'')])
                      else (c1, f1));
          (c3, f3) = (if exclamationCount originalText > 5
                      then (c2 - 1 / 10, f2 @ [(''negative'', ''Excessive exclamation marks'')])
                      else (c2, f2));
          (c4, f4) = (if testRe e (Literal ''https'') originalText
                      then (c3 + 5 / 100, f3 @ [(''positive'', ''Uses HTTPS links'')])
                      else (c3, f3))
      in \<lparr> cr_score = max 0 (min c4 1), cr_factors = f4 \<rparr>)"

definition countSyllables :: "engine \<Rightarrow> jsString \<Rightarrow> nat" where
  "countSyllables e text =
     foldl (\<lambda>count word.
              (let syllables =
                     matchAll e (Literal ''vowelGroups'')
                       (replaceRe e (Literal ''leadingY'')
                          (replaceRe e (Literal ''silentEnding'') (toLowerCase word)))
               in count + (if syllables = [] then 1 else length syllables)))
       0 (splitRe e (Literal ''whitespace+'') text)"

definition calculateReadability :: "nat \<Rightarrow> nat \<Rightarrow> nat \<Rightarrow> real" where
  "calculateReadability words sentences syllables =
     (if sentences = 0 \<or> words = 0 then 0
      else (let sc = 206835 / 1000 - (1015 / 1000) * (real words / real sentences)
                      - (846 / 10) * (real syllables / real words)
            in toFixed 2 (max 0 (min 100 sc))))"

definition getTextStatistics :: "engine \<Rightarrow> jsString \<Rightarrow> textStatistics" where
  "getTextStatistics e text =
     (let words = filter (\<lambda>w. length w > 0) (splitRe e (Literal ''whitespace+'') text);
          sentences = sentencesLongerThan e 5 text;
          characters = length text
      in \<lparr> wordCount = length words,
           sentenceCount = length sentences,
           characterCount = characters,
           avgWordLength =
             (if length words = 0 then None
              else Some (toFixed 2 (real characters / real (length words)))),
           avgSentenceLength =
             (if length sentences = 0 then None
              else Some (toFixed 2 (real (length words) / real (length sentences)))),
           readabilityScore =
             calculateReadability (length words) (length sentences) (countSyllables e text) \<rparr>)"

definition generateWarningLevel ::
  "real \<Rightarrow> real \<Rightarrow> string list \<Rightarrow> manipulationTechnique list \<Rightarrow> string" where
  "generateWarningLevel aiSc urg pers manipulation =
     (let highRiskManipulation = list_ex (\<lambda>m. mt_severity m = ''high'') manipulation;
          criticalUrgency = urg > 7 / 10;
          excessivePersuasion = length pers > 4;
          highAIScore = aiSc > 7 / 10
      in if (highRiskManipulation \<and> criticalUrgency)
            \<or> (highAIScore \<and> excessivePersuasion \<and> urg > 5 / 10)
         then ''high''
         else if urg > 5 / 10 \<or> length pers > 2 \<or> (aiSc > 6 / 10 \<and> length manipulation > 0)
         then ''medium''
         else ''low'')"

definition createEmptyResult :: aiResult where
  "createEmptyResult =
     \<lparr> aiProbability = 0, confidence = 0, breakdown = [], persuasionFlags = [],
       persuasionScore = 0, urgencyScore = 0, urgencyIndicators = [],
       manipulationTechniques = [], credibilityScore = 1, credibilityFactors = [],
       recommendation = ''low'', textStats = None \<rparr>"

text \<open>\<^verbatim>\<open>analyzeText\<close>, for a string argument: the result and the state of the stored
  regular expressions after the call.\<close>

definition analyzeText :: "engine \<Rightarrow> regexState \<Rightarrow> jsString \<Rightarrow> aiResult \<times> regexState" where
  "analyzeText e st content =
     (let text = toLowerCase content;
          originalText = content
      in if text = [] \<or> length text < 100 then (createEmptyResult, st)
         else
           (let (linguisticScore, st') = calculateLinguisticAIScore e text st;
                statisticalScore = calculateStatisticalAIScore e text;
                semanticScore = calculateSemanticAIScore e text;
                structuralScore = calculateStructuralAIScore e originalText;
                aiSc = calculateCompositeAIScore
                         \<lparr> linguistic = linguisticScore, statistical = statisticalScore,
                           semantic = semanticScore, structural = structuralScore \<rparr>;
                pers = detectPersuasionPatterns text;
                urg = measureUrgencyTactics e originalText;
                manipulation = detectManipulationTechniques e text;
                cred = assessCredibilitySignals e text originalText
            in (\<lparr> aiProbability = toFixed 3 (probability aiSc),
                   confidence = toFixed 3 (as_confidence aiSc),
                   breakdown = as_breakdown aiSc,
                   persuasionFlags = p_flags pers,
                   persuasionScore = toFixed 3 (p_score pers),
                   urgencyScore = toFixed 3 (u_score urg),
                   urgencyIndicators = u_indicators urg,
                   manipulationTechniques = manipulation,
                   credibilityScore = toFixed 3 (cr_score cred),
                   credibilityFactors = cr_factors cred,
                   recommendation =
                     generateWarningLevel (probability aiSc) (u_score urg) (p_flags pers)
                       manipulation,
                   textStats = Some (getTextStatistics e text) \<rparr>, st')))"

section \<open>The LLM fingerprinter (LLMFingerprinter)\<close>

text \<open>\<^verbatim>\<open>this.patterns\<close>: category, stored patterns, weight, model type.\<close>

definition llmPatterns :: "(string \<times> regex list \<times> real \<times> string) list" where
  "llmPatterns =
     [(''gptSignatures'', patternsOf ''gptSignatures'' 4, 25 / 100, ''GPT''),
      (''claudeSignatures'', patternsOf ''claudeSignatures'' 2, 20 / 100, ''Claude''),
      (''unnaturalPoliteness'', patternsOf ''unnaturalPoliteness'' 3, 15 / 100, ''Generic''),
      (''genericGreetings'', patternsOf ''genericGreetings'' 2, 20 / 100, ''Phishing''),
      (''urgencyMarkers'', patternsOf ''urgencyMarkers'' 3, 25 / 100, ''Phishing''),
      (''signaturePatterns'', patternsOf ''signaturePatterns'' 3, 18 / 100, ''Impersonation''),
      (''structuredPatterns'', patternsOf ''structuredPatterns'' 4, 12 / 100, ''Generic''),
      (''overExplanation'', patternsOf ''overExplanation'' 3, 10 / 100, ''Generic'')]"

definition contextMultipliers :: "(string \<times> string list \<times> real) list" where
  "contextMultipliers =
     [(''financialContext'',
       [''bank'', ''account'', ''payment'', ''credit card'', ''transaction'', ''money'',
        ''funds'', ''wire transfer''], 15 / 10),
      (''credentialContext'',
       [''password'', ''login'', ''verify'', ''authenticate'', ''credentials'', ''access'',
        ''sign in''], 14 / 10),
      (''urgentContext'',
       [''urgent'', ''immediately'', ''now'', ''asap'', ''expire'', ''deadline'', ''suspend''],
       13 / 10)]"

definition calculateContextMultiplier :: "jsString \<Rightarrow> real" where
  "calculateContextMultiplier text =
     foldl (\<lambda>maxMultiplier (contextType, keywords, multiplier).
              if list_ex (\<lambda>keyword. stringIncludes text (ascii keyword)) keywords
              then max maxMultiplier multiplier else maxMultiplier)
       1 contextMultipliers"

definition assessGrammarQuality :: "engine \<Rightarrow> jsString \<Rightarrow> bool" where
  "assessGrammarQuality e text =
     (\<not> list_ex (\<lambda>pattern. testRe e pattern text) (patternsOf ''commonErrors'' 5))"

text \<open>\<^verbatim>\<open>words.slice(0, 3).join(' ')\<close>\<close>

fun joinSpace :: "jsString list \<Rightarrow> jsString" where
  "joinSpace [] = []"
| "joinSpace [w] = w"
| "joinSpace (w # ws) = w @ [32] @ joinSpace ws"

text \<open>\<^verbatim>\<open>findRepetitivePhrases\<close> counts the phrases in a plain object. For a phrase
  that is the name of a member the object inherits, \<^verbatim>\<open>frequency[start] || 0\<close> is that
  member, the count is not a number, and \<^verbatim>\<open>count > 1\<close> is false; the lower-case names
  among them are listed. The other phrases come in the order of their first occurrence (a
  phrase of one word longer than 10 characters, or with a space, is no array index).\<close>

definition inheritedKeys :: "jsString list" where
  "inheritedKeys = [ascii ''constructor'', ascii ''__proto__'']"

definition findRepetitivePhrases :: "engine \<Rightarrow> jsString \<Rightarrow> jsString list" where
  "findRepetitivePhrases e content =
     (let sentences = sentencesLongerThan e 10 content;
          starts = map (\<lambda>s. toLowerCase
                               (joinSpace (take 3 (splitRe e (Literal ''whitespace+'') (trim s)))))
                     sentences
      in filter (\<lambda>phrase. phrase \<notin> set inheritedKeys \<and> count_list starts phrase > 1)
           (dedupe starts))"

definition analyzeHeuristics :: "engine \<Rightarrow> jsString \<Rightarrow> jsString \<Rightarrow> llmHeuristics" where
  "analyzeHeuristics e content text =
     (let s0 = 0;
          formalWords = matchAll e (Literal ''formalWords'') text;
          s1 = (if length formalWords > 2 then s0 + 1 / 10 else s0);
          hasUrgency = testRe e (Literal ''urgentWords'') text;
          hasPerfectGrammar = assessGrammarQuality e content;
          s2 = (if hasUrgency \<and> hasPerfectGrammar then s1 + 15 / 100 else s1);
          sentences = sentencesLongerThan e 10 content;
          variance = calculateVariance (map (\<lambda>s. real (wordsInSentence e s)) sentences);
          rhythm = (length sentences \<ge> 3 \<and> variance < 15);
          s3 = (if rhythm then s2 + 1 / 10 else s2);
          hasBullets = testRe e (Literal ''bullets'') content;
          hasNumbers = testRe e (Literal ''numbers'') content;
          hasHeaders = testRe e (Literal ''headers'') content;
          structureCount = length (filter (\<lambda>b. b) [hasBullets, hasNumbers, hasHeaders]);
          s4 = (if structureCount \<ge> 2 then s3 + 8 / 100 else s3);
          commonPhrases = findRepetitivePhrases e content;
          s5 = (if length commonPhrases > 2 then s4 + 1 / 10 else s4)
      in \<lparr> h_score = min s5 (4 / 10),
           h_excessiveFormality =
             (if length formalWords > 2 then Some (length formalWords) else None),
           h_suspiciousGrammar = (hasUrgency \<and> hasPerfectGrammar),
           h_unnaturalRhythm = (if rhythm then Some (toFixed 2 variance) else None),
           h_overStructured = (if structureCount \<ge> 2 then Some structureCount else None),
           h_repetitivePhrases =
             (if length commonPhrases > 2 then Some commonPhrases else None) \<rparr>)"

text \<open>\<^verbatim>\<open>modelSignatures[config.modelType] += categoryScore\<close>, the member created with 0 when
  it is missing.\<close>

definition addSignature :: "string \<Rightarrow> real \<Rightarrow> (string \<times> real) list \<Rightarrow> (string \<times> real) list" where
  "addSignature modelType v sigs =
     (if list_ex (\<lambda>(k, x). k = modelType) sigs
      then map (\<lambda>(k, x). if k = modelType then (k, x + v) else (k, x)) sigs
      else sigs @ [(modelType, 0 + v)])"

text \<open>\<^verbatim>\<open>identifyLikelyModel\<close>; the sort of the source is stable and descending in the
  score. The member \<^verbatim>\<open>allSignatures\<close> of the result is left out.\<close>

definition identifyLikelyModel :: "(string \<times> real) list \<Rightarrow> likelyModel option" where
  "identifyLikelyModel signatures =
     (if length signatures = 0 then None
      else (case sort_key (\<lambda>(model, sc). - sc) signatures of
              [] \<Rightarrow> None
            | (topModel, topScore) # rest \<Rightarrow>
                if topScore > 15 / 100
                then Some \<lparr> lm_type = topModel,
                            lm_confidence = toFixed 3 (min (topScore * 2) 1) \<rparr>
                else None))"

definition matchesOf :: "(string \<times> jsString list) list \<Rightarrow> string \<Rightarrow> jsString list" where
  "matchesOf ms category = (case map_of ms category of None \<Rightarrow> [] | Some found \<Rightarrow> found)"

definition identifyRiskFactors ::
  "(string \<times> jsString list) list \<Rightarrow> llmHeuristics \<Rightarrow> real \<Rightarrow> riskFactor list" where
  "identifyRiskFactors ms heuristics contextMultiplier =
     (if length (matchesOf ms ''urgencyMarkers'') > 0
      then [\<lparr> rf_type = ''high_urgency_ai_combo'', rf_severity = ''high'' \<rparr>] else []) @
     (if length (matchesOf ms ''genericGreetings'') > 0
      then [\<lparr> rf_type = ''impersonal_greeting'', rf_severity = ''medium'' \<rparr>] else []) @
     (if length (matchesOf ms ''signaturePatterns'') > 0
      then [\<lparr> rf_type = ''authority_impersonation'', rf_severity = ''high'' \<rparr>] else []) @
     (if contextMultiplier > 13 / 10
      then [\<lparr> rf_type = ''high_risk_context'', rf_severity = ''high'' \<rparr>] else []) @
     (if h_suspiciousGrammar heuristics
      then [\<lparr> rf_type = ''suspicious_grammar'', rf_severity = ''medium'' \<rparr>] else [])"

record fingerprintAcc =
  fa_matches :: "(string \<times> jsString list) list"
  fa_modelSignatures :: "(string \<times> real) list"
  fa_totalScore :: real
  fa_totalHits :: nat

text \<open>The body of the loop over \<^verbatim>\<open>this.patterns\<close>.\<close>

definition fingerprintStep ::
  "engine \<Rightarrow> jsString \<Rightarrow> fingerprintAcc \<times> regexState \<Rightarrow>
   string \<times> regex list \<times> real \<times> string \<Rightarrow> fingerprintAcc \<times> regexState" where
  "fingerprintStep e content acc config =
     (case acc of (a, st) \<Rightarrow>
      case config of (category, patterns, weight, modelType) \<Rightarrow>
        (let (categoryMatches, st') = matchCategory e content patterns st;
             categoryHits = length categoryMatches
         in if length categoryMatches > 0
            then (let categoryScore = min ((real categoryHits * (1 / 10)) * weight) weight
                  in (\<lparr> fa_matches = fa_matches a @ [(category, dedupe categoryMatches)],
                         fa_modelSignatures =
                           addSignature modelType categoryScore (fa_modelSignatures a),
                         fa_totalScore = fa_totalScore a + categoryScore,
                         fa_totalHits = fa_totalHits a + categoryHits \<rparr>, st'))
            else (a, st')))"

definition createEmptyFingerprint :: llmResult where
  "createEmptyFingerprint =
     \<lparr> llm_score = 0, llm_matches = [], llm_totalHits = 0, llm_modelSignatures = [], llm_likelyModel = None,
       llm_contextMultiplier = 1, llm_heuristics = None, llm_riskFactors = [] \<rparr>"

definition detectAIPhishing :: "engine \<Rightarrow> regexState \<Rightarrow> jsString \<Rightarrow> llmResult \<times> regexState" where
  "detectAIPhishing e st content =
     (if content = [] \<or> length content < 30 then (createEmptyFingerprint, st)
      else
        (let text = toLowerCase content;
             (a, st') = foldl (fingerprintStep e content)
                          (\<lparr> fa_matches = [], fa_modelSignatures = [], fa_totalScore = 0,
                             fa_totalHits = 0 \<rparr>, st)
                          llmPatterns;
             contextMultiplier = calculateContextMultiplier text;
             totalScore1 = fa_totalScore a * contextMultiplier;
             heuristics = analyzeHeuristics e content text;
             totalScore2 = totalScore1 + h_score heuristics;
             likely = identifyLikelyModel (fa_modelSignatures a)
         in (\<lparr> llm_score = toFixed 3 (min totalScore2 1),
                llm_matches = fa_matches a,
                llm_totalHits = fa_totalHits a,
                llm_modelSignatures = fa_modelSignatures a,
                llm_likelyModel = likely,
                llm_contextMultiplier = toFixed 2 contextMultiplier,
                llm_heuristics = Some heuristics,
                llm_riskFactors = identifyRiskFactors (fa_matches a) heuristics contextMultiplier \<rparr>,
             st')))"

section \<open>Analysis of one node by the jailbreak scanner\<close>

text \<open>\<^verbatim>\<open>this.patterns\<close> of the scanner: category, patterns, severity, weight.\<close>

definition jailbreakPatterns :: "(string \<times> regex list \<times> string \<times> real) list" where
  "jailbreakPatterns =
     [(''instructionOverride'', patternsOf ''instructionOverride'' 4, ''critical'', 3 / 10),
      (''rolePlay'', patternsOf ''rolePlay'' 4, ''critical'', 25 / 100),
      (''promptExtraction'', patternsOf ''promptExtraction'' 3, ''critical'', 25 / 100),
      (''delimiterInjection'', patternsOf ''delimiterInjection'' 3, ''critical'', 30 / 100),
      (''hypotheticalScenarios'', patternsOf ''hypotheticalScenarios'' 3, ''medium'', 15 / 100),
      (''encodingAttempts'', patternsOf ''encodingAttempts'' 3, ''high'', 20 / 100),
      (''reversePsychology'', patternsOf ''reversePsychology'' 3, ''low'', 10 / 100),
      (''contextManipulation'', patternsOf ''contextManipulation'' 4, ''medium'', 15 / 100)]"

definition severityLevel :: "string \<Rightarrow> nat option" where
  "severityLevel s =
     map_of [(''low'', 1), (''medium'', 2), (''high'', 3), (''critical'', 4)] s"

text \<open>\<^verbatim>\<open>compareSeverity(sev1, sev2) > 0\<close>; a name outside the table gives NaN.\<close>

definition severityAbove :: "string \<Rightarrow> string \<Rightarrow> bool" where
  "severityAbove sev1 sev2 =
     (case (severityLevel sev1, severityLevel sev2) of
        (Some a, Some b) \<Rightarrow> a > b
      | _ \<Rightarrow> False)"

definition performHeuristicAnalysis :: "engine \<Rightarrow> jsString \<Rightarrow> heuristics" where
  "performHeuristicAnalysis e text =
     (let h0 = \<lparr> jh_suspicious = False, jh_suspicionScore = 0, jh_flags = [] \<rparr>;
          h1 = (if length (matchAll e (Literal ''base64'') text) > 2
                then \<lparr> jh_suspicious = True, jh_suspicionScore = jh_suspicionScore h0 + 5 / 10,
                       jh_flags = jh_flags h0 @ [''Multiple base64-like strings''] \<rparr>
                else h0);
          h2 = (if length (matchAll e (Literal ''escapes'') text) > 5
                then \<lparr> jh_suspicious = True, jh_suspicionScore = jh_suspicionScore h1 + 3 / 10,
                       jh_flags = jh_flags h1 @ [''Excessive escape sequences''] \<rparr>
                else h1);
          h3 = (if length (matchAll e (Literal ''imperatives'') text) > 2
                then \<lparr> jh_suspicious = True, jh_suspicionScore = jh_suspicionScore h2 + 4 / 10,
                       jh_flags = jh_flags h2 @ [''Instruction-like commands''] \<rparr>
                else h2);
          h4 = (if stringIncludes text (ascii ''###'') \<or> stringIncludes text (ascii ''User:'')
                   \<or> stringIncludes text (ascii ''Assistant:'')
                then \<lparr> jh_suspicious = True, jh_suspicionScore = jh_suspicionScore h3 + 6 / 10,
                       jh_flags = jh_flags h3 @ [''Prompt-like structure''] \<rparr>
                else h3)
      in h4)"

text \<open>The loop over the patterns of one category: the matches, the hits and the maximal
  severity so far.\<close>

definition nodePatternStep ::
  "engine \<Rightarrow> jsString \<Rightarrow> string \<Rightarrow> jsString list \<times> real \<times> string \<Rightarrow> regex \<Rightarrow>
   jsString list \<times> real \<times> string" where
  "nodePatternStep e text severity acc pattern =
     (case acc of (categoryMatches, hits, maxSeverity) \<Rightarrow>
        (let found = matchAll e pattern text
         in if length found > 0
            then (categoryMatches @ found, hits + real (length found),
                  if severityAbove severity maxSeverity then severity else maxSeverity)
            else (categoryMatches, hits, maxSeverity)))"

definition nodeCategoryStep ::
  "engine \<Rightarrow> jsString \<Rightarrow> nodeAnalysis \<Rightarrow> string \<times> regex list \<times> string \<times> real \<Rightarrow>
   nodeAnalysis" where
  "nodeCategoryStep e text result config =
     (case config of (category, patterns, severity, weight) \<Rightarrow>
        (let (categoryMatches, hits, maxSeverity) =
               foldl (nodePatternStep e text severity)
                 ([], na_hits result, na_maxSeverity result) patterns;
             r1 = result\<lparr> na_hits := hits, na_maxSeverity := maxSeverity \<rparr>
         in if length categoryMatches > 0
            then r1\<lparr> na_patterns := na_patterns r1 @
                        [(category, \<lparr> ph_matches = dedupe categoryMatches,
                                      ph_severity = severity, ph_weight = weight \<rparr>)] \<rparr>
            else r1))"

text \<open>\<^verbatim>\<open>analyzeNode\<close>; \<open>nodeText\<close> gives the text that the source reads from the node
  for the source tag: the body of a script or the value of the attribute, empty when there
  is none. The member \<^verbatim>\<open>matches\<close> (contexts for display) is left out.\<close>

definition analyzeNode ::
  "engine \<Rightarrow> ('n \<Rightarrow> string \<Rightarrow> jsString) \<Rightarrow> 'n \<Rightarrow> string \<Rightarrow> nodeAnalysis" where
  "analyzeNode e nodeText node src =
     (let result = \<lparr> na_source = src, na_hits = 0, na_maxSeverity = ''low'',
                      na_patterns = [], na_heuristics = None \<rparr>;
          text = nodeText node src
      in if length text = 0 then result
         else
           (let r1 = foldl (nodeCategoryStep e text) result jailbreakPatterns;
                h = performHeuristicAnalysis e text
            in if jh_suspicious h
               then r1\<lparr> na_hits := na_hits r1 + jh_suspicionScore h, na_heuristics := Some h \<rparr>
               else r1))"

section \<open>Domain reputation\<close>

text \<open>Host names: \<^verbatim>\<open>toLowerCase\<close> on ASCII.\<close>

definition lowerChar :: "char \<Rightarrow> char" where
  "lowerChar c =
     (let n = (of_char c :: nat) in if 65 \<le> n \<and> n \<le> 90 then char_of (n + 32) else c)"

definition lowerAscii :: "string \<Rightarrow> string" where
  "lowerAscii s = map lowerChar s"

definition isDigit :: "char \<Rightarrow> bool" where
  "isDigit c = (let n = (of_char c :: nat) in 48 \<le> n \<and> n \<le> 57)"

definition endsWith :: "'a list \<Rightarrow> 'a list \<Rightarrow> bool" where
  "endsWith s t = startsWith (rev s) (rev t)"

text \<open>\<^verbatim>\<open>parts.join(".")\<close>\<close>

fun joinDot :: "string list \<Rightarrow> string" where
  "joinDot [] = []"
| "joinDot [p] = p"
| "joinDot (p # ps) = p @ ''.'' @ joinDot ps"

subsection \<open>The background worker\<close>

definition referenceDomains :: "string list" where
  "referenceDomains =
     [''google'', ''facebook'', ''microsoft'', ''apple'', ''amazon'', ''bankofamerica'',
      ''wellsfargo'', ''paypal'']"

text \<open>The body of the loop of \<^verbatim>\<open>computeTyposquat\<close>.\<close>

definition closestStep :: "string \<Rightarrow> real \<Rightarrow> string \<Rightarrow> real" where
  "closestStep name best ref =
     (let dist = levenshtein name ref;
          normalized = real dist / real (max (max (length name) (length ref)) 1)
      in min best normalized)"

definition computeTyposquat :: "string \<Rightarrow> real" where
  "computeTyposquat domain =
     (let name = baseLabel domain;
          best = foldl (closestStep name) 1 referenceDomains
      in 1 - best)"

text \<open>\<^verbatim>\<open>domainEntropy\<close>: the sum over the distinct characters of the name.\<close>

definition domainEntropy :: "string \<Rightarrow> real" where
  "domainEntropy domain =
     (let len = (if length domain = 0 then 1 else length domain);
          entropy = foldl (\<lambda>entropy c.
                             (let p = real (count_list domain c) / real len
                              in entropy - p * log 2 p))
                      0 (dedupe domain)
      in toFixed 2 entropy)"

definition buildLocalSignals :: "string \<Rightarrow> localSignals" where
  "buildLocalSignals domain =
     \<lparr> typosquatLikelihood = computeTyposquat domain,
       entropy = domainEntropy domain,
       isPunycode = startsWith domain ''xn--'',
       parts = splitOn CHR ''.'' domain \<rparr>"

text \<open>\<^verbatim>\<open>resolveDomainReputation\<close> without the storage cache: \<open>None\<close> is the reply that
  carries only an error, \<open>Some r\<close> the reply whose \<^verbatim>\<open>computedRisk\<close> is \<open>r\<close>.\<close>

definition resolveDomainReputation ::
  "string option \<Rightarrow> string option \<Rightarrow> (string \<Rightarrow> string \<Rightarrow> vtResult) \<Rightarrow>
   (string \<Rightarrow> string \<Rightarrow> gsbResult) \<Rightarrow> string \<Rightarrow> jsError + real option" where
  "resolveDomainReputation vtApiKey gsbApiKey queryVirusTotal querySafeBrowsing domain =
     (if domain = [] then Inr None
      else (let l = buildLocalSignals domain;
                r = fetchRemoteSignals vtApiKey gsbApiKey queryVirusTotal querySafeBrowsing domain
            in case scoreDomainRisk l (Some r) of
                 Inl err \<Rightarrow> Inl err
               | Inr risk \<Rightarrow> Inr (Some risk)))"

subsection \<open>The content script (DomainReputation)\<close>

definition suspiciousTLDs :: "string list" where
  "suspiciousTLDs =
     [''.tk'', ''.ml'', ''.ga'', ''.cf'', ''.gq'',
      ''.xyz'', ''.top'', ''.work'', ''.click'', ''.link'',
      ''.loan'', ''.download'', ''.racing'', ''.accountant'', ''.science'',
      ''.faith'', ''.win'', ''.bid'', ''.cricket'', ''.party'']"

record tldAnalysis =
  tld_tld :: "string option"
  tld_suspicious :: bool
  tld_risk :: string
  tld_reason :: "string option"

definition analyzeTLD :: "string \<Rightarrow> tldAnalysis" where
  "analyzeTLD domain =
     (let ps = splitOn CHR ''.'' domain in
      if length ps < 2
      then \<lparr> tld_tld = None, tld_suspicious = False, tld_risk = ''low'', tld_reason = None \<rparr>
      else
        (let tld = ''.'' @ last ps;
             secondLevel = (if length ps > 2 then ''.'' @ joinDot (drop (length ps - 2) ps)
                            else tld);
             a0 = \<lparr> tld_tld = Some secondLevel, tld_suspicious = False, tld_risk = ''low'',
                    tld_reason = None \<rparr>;
             a1 = (if List.member suspiciousTLDs (lowerAscii secondLevel)
                      \<or> List.member suspiciousTLDs (lowerAscii tld)
                   then a0\<lparr> tld_suspicious := True, tld_risk := ''high'',
                            tld_reason := Some ''TLD commonly used in phishing/spam'' \<rparr>
                   else a0);
             a2 = (if list_ex (\<lambda>t. endsWith (lowerAscii domain) t)
                        [''.tk'', ''.ml'', ''.ga'', ''.cf'', ''.gq'']
                   then a1\<lparr> tld_suspicious := True, tld_risk := ''high'',
                            tld_reason := Some ''Free domain service often abused'' \<rparr>
                   else a1)
         in a2))"

definition analyzeTyposquatting :: "string \<Rightarrow> bool" where
  "analyzeTyposquatting domain =
     (let base = baseLabel domain
      in list_ex (\<lambda>common. (let dist = levenshteinDistance base common
                            in dist > 0 \<and> dist \<le> 2))
           commonDomains)"

definition fallbackRisk :: "string \<Rightarrow> real" where
  "fallbackRisk domain =
     (let b0 = 20;
          b1 = (if analyzeTyposquatting domain then b0 + 40 else b0);
          b2 = (if stringIncludes domain ''-'' then b1 + 10 else b1);
          b3 = (if tld_suspicious (analyzeTLD domain) then b2 + 30 else b2)
      in min b3 100)"

record brandHit =
  bh_name :: string
  bh_position :: string
  bh_confidence :: real

record impersonation =
  imp_detected :: bool
  imp_brands :: "brandHit list"
  imp_confidence :: real

text \<open>\<^verbatim>\<open>Math.max(...xs)\<close> of a list that is not empty.\<close>

definition maxOf :: "real list \<Rightarrow> real" where
  "maxOf xs = foldl max (hd xs) (tl xs)"

text \<open>The body of the loop of \<^verbatim>\<open>detectBrandImpersonation\<close>.\<close>

definition brandStep :: "string \<Rightarrow> brandHit list \<Rightarrow> string \<Rightarrow> brandHit list" where
  "brandStep baseDomain brands brand =
     (let b1 = (if stringIncludes baseDomain brand \<and> baseDomain \<noteq> brand
                then brands @ [\<lparr> bh_name = brand, bh_position = ''base_domain'',
                                 bh_confidence = 8 / 10 \<rparr>]
                else brands);
          b2 = (if stringIncludes baseDomain (brand @ ''-'')
                   \<or> stringIncludes baseDomain (''-'' @ brand)
                then b1 @ [\<lparr> bh_name = brand, bh_position = ''hyphenated'',
                             bh_confidence = 9 / 10 \<rparr>]
                else b1)
      in b2)"

definition detectBrandImpersonation :: "string \<Rightarrow> impersonation" where
  "detectBrandImpersonation domain =
     (let baseDomain = lowerAscii (baseLabel domain);
          brands = foldl (brandStep baseDomain) [] commonDomains
      in \<lparr> imp_detected = (brands \<noteq> []), imp_brands = brands,
           imp_confidence = (if length brands > 0 then maxOf (map bh_confidence brands) else 0) \<rparr>)"

text \<open>\<^verbatim>\<open>looksRandom\<close>; for the empty label the ratio is NaN and both comparisons fail.\<close>

definition looksRandom :: "string \<Rightarrow> bool" where
  "looksRandom str =
     (let vowels = length (filter (\<lambda>c. List.member ''aeiou'' (lowerChar c)) str);
          vowelRatio = real vowels / real (length str)
      in str \<noteq> [] \<and> (vowelRatio < 2 / 10 \<or> vowelRatio > 6 / 10))"

definition suspicionScoreOf :: "string \<Rightarrow> real" where
  "suspicionScoreOf domain =
     (let base = baseLabel domain;
          hasNumbers = list_ex isDigit domain;
          excessiveHyphens = length (filter (\<lambda>c. c = CHR ''-'') domain) > 2;
          allNumbers = (base \<noteq> [] \<and> list_all isDigit base);
          randomLooking = looksRandom base;
          shortDomain = length base < 4
      in (if excessiveHyphens then 3 / 10 else 0) +
         (if allNumbers then 4 / 10 else 0) +
         (if randomLooking then 2 / 10 else 0) +
         (if shortDomain \<and> hasNumbers then 1 / 10 else 0))"

text \<open>The guard of \<^verbatim>\<open>checkDomain\<close>: no name, localhost, or four groups of digits.\<close>

definition isLocalHost :: "string \<Rightarrow> bool" where
  "isLocalHost domain =
     (domain = [] \<or> domain = ''localhost''
      \<or> (let ps = splitOn CHR ''.'' domain
          in length ps = 4 \<and> list_all (\<lambda>p. p \<noteq> [] \<and> list_all isDigit p) ps))"

text \<open>What \<^verbatim>\<open>chrome.runtime.sendMessage\<close> yields in \<^verbatim>\<open>checkDomain\<close>: the reply of
  the worker (\<open>None\<close>: a reply without \<^verbatim>\<open>computedRisk\<close>), or an exception.\<close>

datatype reputationReply = Replied "real option" | Rejected string

text \<open>\<^verbatim>\<open>checkDomain\<close> without the result cache, which returns a result that an earlier
  call computed.\<close>

definition checkDomain :: "(string \<Rightarrow> reputationReply) \<Rightarrow> string \<Rightarrow> domainResult" where
  "checkDomain sendMessage domain =
     (if isLocalHost domain then \<lparr> dr_riskScore = 0, dr_typosquatting = None \<rparr>
      else (case sendMessage domain of
              Replied (Some computedRisk) \<Rightarrow>
                \<lparr> dr_riskScore = computedRisk,
                  dr_typosquatting = Some (advancedTyposquatAnalysis domain) \<rparr>
            | Replied None \<Rightarrow>
                \<lparr> dr_riskScore = fallbackRisk domain,
                  dr_typosquatting = Some (advancedTyposquatAnalysis domain) \<rparr>
            | Rejected msg \<Rightarrow>
                \<lparr> dr_riskScore = fallbackRisk domain,
                  dr_typosquatting = Some (advancedTyposquatAnalysis domain) \<rparr>))"

text \<open>The message channel to the worker: the request is answered by
  \<^verbatim>\<open>resolveDomainReputation\<close>, or the call fails (\<open>delivered\<close> is false).\<close>

definition requestReputation ::
  "bool \<Rightarrow> string option \<Rightarrow> string option \<Rightarrow> (string \<Rightarrow> string \<Rightarrow> vtResult) \<Rightarrow>
   (string \<Rightarrow> string \<Rightarrow> gsbResult) \<Rightarrow> string \<Rightarrow> reputationReply" where
  "requestReputation delivered vtApiKey gsbApiKey queryVirusTotal querySafeBrowsing domain =
     (if \<not> delivered then Rejected ''no receiver''
      else (case resolveDomainReputation vtApiKey gsbApiKey queryVirusTotal querySafeBrowsing
                   domain of
              Inl err \<Rightarrow> Rejected ''TypeError''
            | Inr r \<Rightarrow> Replied r))"

section \<open>One analysis cycle of a page\<close>

text \<open>\<^verbatim>\<open>VigilUtils.trunc\<close>\<close>

definition trunc :: "jsString \<Rightarrow> nat \<Rightarrow> jsString" where
  "trunc text limit = (if text = [] \<or> length text \<le> limit then text else take limit text)"

text \<open>\<^verbatim>\<open>analyzePage\<close> up to the risk level: \<open>None\<close> when the page has too little text. The
  four detectors are given their states, the page, its host name and the message channel.\<close>

definition analyzePage ::
  "engine \<Rightarrow> regexState \<Rightarrow> regexState \<Rightarrow> ('n \<Rightarrow> string \<Rightarrow> jsString) \<Rightarrow> nat \<Rightarrow> 'n page \<Rightarrow>
   (string \<rightharpoonup> historyEntry list) \<Rightarrow> (string \<Rightarrow> reputationReply) \<Rightarrow> string \<Rightarrow> jsString \<Rightarrow>
   assessment option" where
  "analyzePage e aiState llmState nodeText now pg history sendMessage currentDomain visibleText =
     (let textContent = trunc visibleText 20000
      in if textContent = [] \<or> length textContent < 50 then None
         else
           (let aiRes = fst (analyzeText e aiState textContent);
                llmRes = fst (detectAIPhishing e llmState textContent);
                jb = JbNumber (fst (scanPage (analyzeNode e nodeText) now currentDomain pg history));
                domainRes = checkDomain sendMessage currentDomain
            in Some (assess aiRes llmRes jb (Some domainRes))))"

definition inUnit :: "real \<Rightarrow> bool" where
  "inUnit x = (0 \<le> x \<and> x \<le> 1)"

definition inPercent :: "real \<Rightarrow> bool" where
  "inPercent x = (0 \<le> x \<and> x \<le> 100)"

definition subScores :: "engine \<Rightarrow> regexState \<Rightarrow> jsString \<Rightarrow> components" where
  "subScores e st content =
     \<lparr> linguistic = fst (calculateLinguisticAIScore e (toLowerCase content) st),
       statistical = calculateStatisticalAIScore e (toLowerCase content),
       semantic = calculateSemanticAIScore e (toLowerCase content),
       structural = calculateStructuralAIScore e content \<rparr>"

definition fingerprintLoop :: "engine \<Rightarrow> regexState \<Rightarrow> jsString \<Rightarrow> fingerprintAcc" where
  "fingerprintLoop e st content =
     fst (foldl (fingerprintStep e content)
            (\<lparr> fa_matches = [], fa_modelSignatures = [], fa_totalScore = 0,
               fa_totalHits = 0 \<rparr>, st)
            llmPatterns)"

definition weightsNonneg :: "nodeAnalysis \<Rightarrow> bool" where
  "weightsNonneg a = list_all (\<lambda>(c, p). 0 \<le> ph_weight p) (na_patterns a)"

text \<open>What the regular expressions of the analyzer find in a text that consists of the code
  units U+0130, U+0069 and U+0307 only: no separator and no match, but for the vowels i, each
  a match of its own.\<close>

definition plainEngine :: engine where
  "plainEngine =
     \<lparr> execAt = (\<lambda>r s i. if r = Literal ''vowelGroups''
                         then (let k = length (takeWhile (\<lambda>u. u \<noteq> 105) (drop i s))
                               in if i + k < length s then Some (k, [105]) else None)
                         else None),
       splitRe = (\<lambda>r s. [s]),
       replaceRe = (\<lambda>r s. s) \<rparr>"

text \<open>Fifty capital letters I with a dot above.\<close>

definition dottedInput :: jsString where
  "dottedInput = replicate 50 304"


section \<open>Properties\<close>

lemma rawTotal_nonneg:
  assumes "0 \<le> m_aiProbability m" "0 \<le> m_domainRisk m"
  shows "0 \<le> rawTotal m"
proof -
  have 1: "0 \<le> aiContribution m" using assms by (simp add: aiContribution_def pow15_def)
  have 2: "0 \<le> urgencyContribution m" by (simp add: urgencyContribution_def)
  have 3: "0 \<le> persuasionContribution m" by (simp add: persuasionContribution_def)
  have "0 \<le> llmMultiplier m" by (simp add: llmMultiplier_def min_def)
  then have 4: "0 \<le> llmContribution m" by (simp add: llmContribution_def)
  have 5: "0 \<le> domainContribution m" using assms by (simp add: domainContribution_def)
  have 6: "0 \<le> jailbreakContribution m" by (simp add: jailbreakContribution_def)
  have 7: "0 \<le> manipulationContribution m" by (simp add: manipulationContribution_def)
  have 8: "0 \<le> credibilityPenalty m" by (simp add: credibilityPenalty_def)
  show ?thesis unfolding rawTotal_def using 1 2 3 4 5 6 7 8 by linarith
qed

lemma rawTotal_documented:
  "documentedTotal m = max 0 (min 100 (rawTotal m))"
proof -
  have a1: "aiContribution m = m_aiProbability m * (m_aiConfidence m) powr (15 / 10) * 20"
    by (simp add: aiContribution_def pow15_def)
  have a2: "urgencyContribution m = (if m_urgencyScore m > 3 / 10 then m_urgencyScore m * 12 else 0)"
    by (simp add: urgencyContribution_def)
  have a3: "persuasionContribution m =
      (if m_persuasionScore m > 2 / 10 then min (m_persuasionScore m) 1 * 10 else 0)"
    by (simp add: persuasionContribution_def)
  have a4: "llmContribution m = (if m_llmScore m > 25 / 100
           then m_llmScore m * 15 * (1 + min (real (m_llmRiskFactors m) * (15 / 100)) (5 / 10))
           else 0)"
    by (simp add: llmContribution_def llmMultiplier_def)
  have a5: "domainContribution m = m_domainRisk m / 100 * 25"
    by (simp add: domainContribution_def)
  have a6: "jailbreakContribution m = (if m_jailbreakHits m > 0
           then min (m_jailbreakHits m * (25 / 10)) 12 *
                (if m_jailbreakCritical m > 0 then 18 / 10 else 1)
           else 0)"
    by (simp add: jailbreakContribution_def)
  have a7: "manipulationContribution m = min (real (m_manipulationTechniques m) * 2) 8"
    by (simp add: manipulationContribution_def)
  have a8: "credibilityPenalty m =
     (if m_credibilityScore m < 7 / 10 then (1 - m_credibilityScore m) * 12 else 0)"
    by (simp add: credibilityPenalty_def)
  show ?thesis
    unfolding documentedTotal_def rawTotal_def a1 a2 a3 a4 a5 a6 a7 a8 by (rule refl)
qed

text \<open>C2. For every metric vector whose AI probability, AI confidence and domain risk are not
  negative (as the detectors deliver them), the total of
  \<^verbatim>\<open>computeAdvancedCompositeScore\<close> is exactly the documented weighted sum of the eight
  terms, clamped to the interval from 0 to 100. The code only applies the upper clamp; in
  this range the sum is never negative, so the lower clamp changes nothing.\<close>

theorem total_weighted_sum:
  assumes "0 \<le> m_aiProbability m" and "0 \<le> m_aiConfidence m" and "0 \<le> m_domainRisk m"
  shows "cs_total (computeAdvancedCompositeScore m) = documentedTotal m"
proof -
  have "0 \<le> rawTotal m" using assms by (rule_tac rawTotal_nonneg) 
  then show ?thesis
    by (simp add: rawTotal_documented computeAdvancedCompositeScore_def min_def max_def)
qed

lemma exampleMetrics_rawTotal: "rawTotal exampleMetrics = 269 / 5"
  by (simp add: rawTotal_def exampleMetrics_def aiContribution_def pow15_def
      urgencyContribution_def persuasionContribution_def llmContribution_def llmMultiplier_def
      domainContribution_def jailbreakContribution_def manipulationContribution_def
      credibilityPenalty_def)

text \<open>The weighted sum of C2 at a concrete vector: 10 + 6 + 3 + 7.8 + 10 + 9 + 2 + 6.\<close>

theorem total_weighted_sum_witness:
  "0 \<le> m_aiProbability exampleMetrics \<and> 0 \<le> m_aiConfidence exampleMetrics \<and>
   0 \<le> m_domainRisk exampleMetrics \<and>
   documentedTotal exampleMetrics = 269 / 5"
proof -
  have h: "0 \<le> m_aiProbability exampleMetrics" "0 \<le> m_aiConfidence exampleMetrics"
    "0 \<le> m_domainRisk exampleMetrics"
    by (simp_all add: exampleMetrics_def)
  have "cs_total (computeAdvancedCompositeScore exampleMetrics) = 269 / 5"
    by (simp add: computeAdvancedCompositeScore_def exampleMetrics_rawTotal)
  with total_weighted_sum [OF h] h show ?thesis by simp
qed

lemma gate_metrics_total:
  "rawTotal (buildMetrics gateInputAi gateInputLlm (JbNumber 0) (Some gateInputDomain)) = 537 / 10"
  by (simp add: rawTotal_def buildMetrics_def gateInputAi_def gateInputLlm_def
      gateInputDomain_def extractJailbreakHits_def extractJailbreakCritical_def
      aiContribution_def pow15_def
      urgencyContribution_def persuasionContribution_def llmContribution_def llmMultiplier_def
      domainContribution_def jailbreakContribution_def manipulationContribution_def
      credibilityPenalty_def)

text \<open>C1. The code at an input for which the claim fails: none of the six independent signal
  conditions holds, none of the six critical conditions holds, and the composite total is
  53.7; \<^verbatim>\<open>deriveEnhancedRiskLevel\<close> receives the signal count, does not read it, and
  returns the level medium.\<close>

theorem medium_level_with_no_signal:
  "sc_count (as_independentSignals
      (assess gateInputAi gateInputLlm (JbNumber 0) (Some gateInputDomain))) = 0
   \<and> \<not> list_ex (\<lambda>c. c)
        (criticalConditions gateInputAi gateInputLlm (Some gateInputDomain)
           (extractJailbreakHits (JbNumber 0)))
   \<and> as_riskLevel (assess gateInputAi gateInputLlm (JbNumber 0) (Some gateInputDomain))
       = ''medium''"
proof -
  have c: "\<not> list_ex (\<lambda>c. c)
        (criticalConditions gateInputAi gateInputLlm (Some gateInputDomain)
           (extractJailbreakHits (JbNumber 0)))"
    by (simp add: criticalConditions_def gateInputAi_def gateInputLlm_def gateInputDomain_def
        extractJailbreakHits_def)
  have s: "sc_count (countIndependentSignals
      (buildSignalData gateInputAi gateInputLlm (JbNumber 0) (Some gateInputDomain))) = 0"
    by (simp add: countIndependentSignals_def buildSignalData_def gateInputAi_def
        gateInputLlm_def gateInputDomain_def extractJailbreakHits_def)
  have t: "cs_total (computeAdvancedCompositeScore
      (buildMetrics gateInputAi gateInputLlm (JbNumber 0) (Some gateInputDomain))) = 537 / 10"
    by (simp add: computeAdvancedCompositeScore_def gate_metrics_total)
  show ?thesis using c s t
    by (simp add: assess_def Let_def deriveEnhancedRiskLevel_def)
qed


lemma foldl_addAnalysis:
  "foldl (addAnalysis b) r xs =
     r\<lparr> jb_detections := jb_detections r @ retained xs,
        jb_totalHits := jb_totalHits r + (\<Sum>a \<leftarrow> retained xs. na_hits a),
        jb_criticalHits := jb_criticalHits r +
           length (filter (\<lambda>a. b \<or> na_maxSeverity a = ''critical'') (retained xs)) \<rparr>"
proof (induction xs arbitrary: r)
  case Nil
  show ?case by (simp add: retained_def)
next
  case (Cons a xs)
  show ?case
    by (simp add: Cons.IH) (simp add: addAnalysis_def retained_def add.assoc)
qed

lemma foldl_category:
  "foldl (\<lambda>s (category, d). if category = ''heuristics'' then s else s + ph_weight d * 20) s ps
   = s + (\<Sum>(c, p) \<leftarrow> filter (\<lambda>(c, p). c \<noteq> ''heuristics'') ps. ph_weight p * 20)"
  by (induction ps arbitrary: s) (auto simp: add.assoc)

lemma foldl_addCategoryWeights:
  "foldl addCategoryWeights s ds = s + categoryWeightSum ds"
  by (induction ds arbitrary: s)
     (simp_all add: categoryWeightSum_def addCategoryWeights_def foldl_category add.assoc)

lemma calculateRiskScore_sum:
  "calculateRiskScore r =
     min (mathRound (min (jb_totalHits r * 15) 50 + real (jb_criticalHits r) * 30
            + categoryWeightSum (jb_detections r))) 100"
  by (simp add: calculateRiskScore_def foldl_addCategoryWeights)

text \<open>C3, as amended. The risk score that \<^verbatim>\<open>scanPage\<close> stores is
  \<open>min (round (min (totalHits * 15) 50 + criticalHits * 30 + \<Sum> weight * 20)) 100\<close>: the
  contribution of the hits is capped at 50. Here \<open>totalHits\<close> sums the hits of the retained
  analyses (those with a hit), \<open>criticalHits\<close> counts the retained script and event-handler
  analyses of maximal severity critical and every retained analysis of a suspicious data
  attribute, and the sum ranges over the pattern categories matched in each retained
  analysis.\<close>

theorem risk_score_capped_formula:
  "(let S = retained (scriptAnalyses an pg);
        H = retained (attributeAnalyses an pg eventHandlers);
        A = retained (attributeAnalyses an pg suspiciousAttributes);
        r = scanResults an pg
    in jb_detections r = S @ H @ A
     \<and> jb_totalHits r = (\<Sum>a \<leftarrow> S @ H @ A. na_hits a)
     \<and> jb_criticalHits r = length (filter (\<lambda>a. na_maxSeverity a = ''critical'') (S @ H)) + length A
     \<and> jb_riskScore r =
         min (mathRound (min (jb_totalHits r * 15) 50 + real (jb_criticalHits r) * 30
                + categoryWeightSum (jb_detections r))) 100)"
  by (simp add: scanResults_def Let_def foldl_addAnalysis calculateRiskScore_sum)

text \<open>C3 as stated fails: for one script with four hits of the category of weight 0.1 the
  code yields 52, the formula without the cap 62.\<close>

theorem risk_score_uncapped_counterexample:
  "calculateRiskScore cappedExample = 52 \<and> documentedRiskScore cappedExample = 62
   \<and> calculateRiskScore cappedExample \<noteq> documentedRiskScore cappedExample"
  by (simp add: calculateRiskScore_def documentedRiskScore_def cappedExample_def
      addCategoryWeights_def mathRound_def)




lemma update_bounded:
  assumes "historyBounded H"
  shows "historyBounded (fst (updateDetectionHistory now key r H))"
  using assms
  by (auto simp: historyBounded_def updateDetectionHistory_def Let_def split: option.splits)

lemma scanAll_bounded:
  "historyBounded H \<Longrightarrow> historyBounded (scanAll an scans H)"
proof (induction an scans H rule: scanAll.induct)
  case (1 an h)
  then show ?case by simp
next
  case (2 an now key pg rest h)
  have "fst (snd (scanPage an now key pg h))
        = fst (updateDetectionHistory now key (scanResults an pg) h)"
    by (simp add: scanPage_def Let_def split: prod.splits)
  with 2 show ?case by (simp add: update_bounded)
qed

lemma detectEscalatingThreat_iff:
  "detectEscalatingThreat h \<longleftrightarrow>
     3 \<le> length h \<and>
     jb_riskScore (h ! (length h - 3)) < jb_riskScore (h ! (length h - 2)) \<and>
     jb_riskScore (h ! (length h - 2)) < jb_riskScore (h ! (length h - 1))"
proof (cases "length h < 3")
  case True
  then show ?thesis by (simp add: detectEscalatingThreat_def)
next
  case False
  then obtain n where n: "length h = n + 3"
    by (metis add.commute le_Suc_ex not_less)
  have d: "n + 3 - 2 = Suc n" "n + 3 - 1 = Suc (Suc n)" by arith+
  show ?thesis
    by (simp add: detectEscalatingThreat_def Let_def n d)
qed

text \<open>C8. In every session of scans that starts from the empty history, no host's history holds
  more than 10 entries; an update of a history of 10 entries drops the oldest entry and
  appends the new one; and the escalation alert of an update is raised if and only if the
  stored history then has at least 3 entries and the risk scores of its last three entries
  are strictly increasing.\<close>

theorem detection_history_bounded_escalation:
  "(\<forall>k h. scanAll an scans Map.empty k = Some h \<longrightarrow> length h \<le> 10)
   \<and> (\<forall>h. H key = Some h \<and> length h = 10 \<longrightarrow>
         fst (updateDetectionHistory now key r H) key
           = Some (tl h @ [results.extend r \<lparr> timestamp = now \<rparr>]))
   \<and> (\<exists>h'. fst (updateDetectionHistory now key r H) key = Some h'
         \<and> (snd (updateDetectionHistory now key r H) \<longleftrightarrow>
              3 \<le> length h' \<and>
              jb_riskScore (h' ! (length h' - 3)) < jb_riskScore (h' ! (length h' - 2)) \<and>
              jb_riskScore (h' ! (length h' - 2)) < jb_riskScore (h' ! (length h' - 1))))"
proof (intro conjI)
  have "historyBounded (scanAll an scans Map.empty)"
    by (rule scanAll_bounded) (simp add: historyBounded_def)
  then show "\<forall>k h. scanAll an scans Map.empty k = Some h \<longrightarrow> length h \<le> 10"
    by (simp add: historyBounded_def)
next
  show "\<forall>h. H key = Some h \<and> length h = 10 \<longrightarrow>
         fst (updateDetectionHistory now key r H) key
           = Some (tl h @ [results.extend r \<lparr> timestamp = now \<rparr>])"
  proof (intro allI impI)
    fix h assume h: "H key = Some h \<and> length h = 10"
    then have "h \<noteq> []" by auto
    then have "tl (h @ [results.extend r \<lparr> timestamp = now \<rparr>])
               = tl h @ [results.extend r \<lparr> timestamp = now \<rparr>]"
      by simp
    with h show "fst (updateDetectionHistory now key r H) key
           = Some (tl h @ [results.extend r \<lparr> timestamp = now \<rparr>])"
      by (simp add: updateDetectionHistory_def Let_def)
  qed
next
  show "\<exists>h'. fst (updateDetectionHistory now key r H) key = Some h'
         \<and> (snd (updateDetectionHistory now key r H) \<longleftrightarrow>
              3 \<le> length h' \<and>
              jb_riskScore (h' ! (length h' - 3)) < jb_riskScore (h' ! (length h' - 2)) \<and>
              jb_riskScore (h' ! (length h' - 2)) < jb_riskScore (h' ! (length h' - 1)))"
    by (simp add: updateDetectionHistory_def Let_def detectEscalatingThreat_iff)
qed


lemma round_capped: "\<lfloor>min (real n * 15) 50 + 1 / 2\<rfloor> = min (15 * int n) 50"
proof -
  have "min (real n * 15) 50 = of_int (min (15 * int n) 50)" by (simp add: min_def)
  then have "\<lfloor>min (real n * 15) 50 + 1 / 2\<rfloor> = \<lfloor>of_int (min (15 * int n) 50) + (1 / 2 :: real)\<rfloor>"
    by simp
  also have "\<dots> = min (15 * int n) 50" by linarith
  finally show ?thesis .
qed

lemma scan_example:
  "scanResults hitsAnalysis (scriptPage n) =
     (if n = 0 then \<lparr> jb_totalHits = 0, jb_criticalHits = 0, jb_detections = [], jb_riskScore = 0\<rparr>
      else \<lparr> jb_totalHits = real n, jb_criticalHits = 0,
             jb_detections = [hitsAnalysis n ''script''], jb_riskScore = min (15 * int n) 50 \<rparr>)"
  apply (simp add: scanResults_def scriptAnalyses_def attributeAnalyses_def scriptPage_def
        eventHandlers_def suspiciousAttributes_def addAnalysis_def hitsAnalysis_def Let_def
        calculateRiskScore_def addCategoryWeights_def mathRound_def round_capped)
  done

lemma example_history:
  "scanAll hitsAnalysis exampleScans Map.empty ''shop.example'' = Some (map exampleEntry [2 ..< 12])"
  apply (simp add: exampleScans_def upt_conv_Cons scanPage_def updateDetectionHistory_def Let_def 
      scan_example results.defs exampleEntry_def hitsAnalysis_def)
  done


text \<open>C8 at a session of eleven scans of one host: the first entry is gone, ten remain, and a
  twelfth scan evicts the next one.\<close>

theorem detection_history_witness:
  "scanAll hitsAnalysis exampleScans Map.empty ''shop.example''
     = Some (map exampleEntry [2 ..< 12])
   \<and> length (map exampleEntry [2 ..< 12]) \<le> 10
   \<and> fst (updateDetectionHistory 12 ''shop.example'' (scanResults hitsAnalysis (scriptPage 0))
          (scanAll hitsAnalysis exampleScans Map.empty)) ''shop.example''
       = Some (tl (map exampleEntry [2 ..< 12]) @
               [results.extend (scanResults hitsAnalysis (scriptPage 0)) \<lparr> timestamp = 12 \<rparr>])"
proof -
  let ?H = "scanAll hitsAnalysis exampleScans Map.empty"
  have e: "?H ''shop.example'' = Some (map exampleEntry [2 ..< 12])"
    by (rule example_history)
  have l: "length (map exampleEntry [2 ..< 12]) = 10" by simp
  from detection_history_bounded_escalation
         [where an = hitsAnalysis and scans = exampleScans and H = "?H"
            and key = "''shop.example''" and now = 12
            and r = "scanResults hitsAnalysis (scriptPage 0)"]
       e l
  show ?thesis by blast
qed

lemma foldl_upt_invariant:
  assumes "P lo s"
    and "\<And>i s. lo \<le> i \<Longrightarrow> i < hi \<Longrightarrow> P i s \<Longrightarrow> P (Suc i) (f s i)"
    and "lo \<le> hi"
  shows "P hi (foldl f s [lo ..< hi])"
  using assms(3, 2)

proof (induction hi)
  case 0
  with assms(1) show ?case by simp

next
  case (Suc hi)
  show ?case
  proof (cases "lo = Suc hi")
    case True
    with assms(1) show ?thesis by simp
  next
    case False
    with Suc.prems have le: "lo \<le> hi" by simp
    have "P hi (foldl f s [lo ..< hi])"
      using le Suc.prems(2) by (intro Suc.IH) auto
    then have "P (Suc hi) (f (foldl f s [lo ..< hi]) hi)"
      using le by (intro Suc.prems(2)) auto
    with le show ?thesis by simp
  qed

qed

lemma setCell_nth:
  assumes "i < length m" and "j < length (m ! i)"
  shows "setCell m i j v ! i' ! j' = (if i' = i \<and> j' = j then v else m ! i' ! j')"
  using assms by (cases "i' = i") (simp_all add: setCell_def nth_list_update)

lemma setCell_wellShaped:
  assumes "wellShaped n k m"
  shows "wellShaped n k (setCell m i j v)"

proof -
  have "length (setCell m i j v ! r) = Suc k" if "r \<le> n" for r
  proof -
    from that assms have "r < length m" and "length (m ! r) = Suc k"
      by (simp_all add: wellShaped_def)
    then show ?thesis by (cases "r = i") (simp_all add: setCell_def)
  qed
  with assms show ?thesis by (simp add: wellShaped_def setCell_def)

qed

lemma prefixDistance_0_left: "j \<le> length b \<Longrightarrow> prefixDistance a b 0 j = j"
  by (simp add: prefixDistance_def)

lemma editDistance_Nil_right: "editDistance xs [] = length xs"
  by (cases xs) simp_all

lemma prefixDistance_0_right: "i \<le> length a \<Longrightarrow> prefixDistance a b i 0 = i"
  by (simp add: prefixDistance_def editDistance_Nil_right)

lemma prefixDistance_Suc:
  assumes "i < length a" and "j < length b"
  shows "prefixDistance a b (Suc i) (Suc j) =
           min (min (prefixDistance a b i (Suc j) + 1) (prefixDistance a b (Suc i) j + 1))
               (prefixDistance a b i j + (if a ! i = b ! j then 0 else 1))"
  using assms by (simp add: prefixDistance_def take_Suc_conv_app_nth)

lemma initMatrix_wellShaped: "wellShaped (length a) (length b) (initMatrix a b)"

proof -
  have "initMatrix a b = replicate (Suc (length a)) (replicate (Suc (length b)) 0)"
    by (simp add: initMatrix_def)
  then show ?thesis by (simp add: wellShaped_def del: replicate_Suc)

qed

lemma fillFirstColumn_correct:
  "columnFilled (length a) (length b) (Suc (length a)) (fillFirstColumn a (initMatrix a b))"
  unfolding fillFirstColumn_def

proof -
  have "columnFilled (length a) (length b) (Suc (length a))
          (foldl (\<lambda>m i. setCell m i 0 i) (initMatrix a b) [0 ..< Suc (length a)])"
  proof (rule foldl_upt_invariant)
    show "columnFilled (length a) (length b) 0 (initMatrix a b)"
      by (simp add: columnFilled_def initMatrix_wellShaped)
  next
    fix i m
    assume i: "i < Suc (length a)" and inv: "columnFilled (length a) (length b) i m"
    then have w: "wellShaped (length a) (length b) m" by (simp add: columnFilled_def)
    then have r: "i < length m" "0 < length (m ! i)" using i by (auto simp: wellShaped_def)
    show "columnFilled (length a) (length b) (Suc i) (setCell m i 0 i)"
      using inv by (auto simp: columnFilled_def setCell_wellShaped setCell_nth [OF r] less_Suc_eq)
  qed simp
  then show "columnFilled (length a) (length b) (Suc (length a))
          (foldl (\<lambda>m i. setCell m i 0 i) (initMatrix a b) [0 ..< length a + 1])"
    by simp

qed

lemma fillFirstRow_correct:
  assumes "columnFilled (length a) (length b) (Suc (length a)) m"
  shows "rowFilled (length a) (length b) (Suc (length b)) (fillFirstRow b m)"

proof -
  have "rowFilled (length a) (length b) (Suc (length b))
          (foldl (\<lambda>m j. setCell m 0 j j) m [0 ..< Suc (length b)])"
  proof (rule foldl_upt_invariant)
    show "rowFilled (length a) (length b) 0 m"
      using assms by (simp add: rowFilled_def columnFilled_def less_Suc_eq_le)
  next
    fix j m
    assume j: "j < Suc (length b)" and inv: "rowFilled (length a) (length b) j m"
    then have w: "wellShaped (length a) (length b) m" by (simp add: rowFilled_def)
    then have r: "0 < length m" "j < length (m ! 0)" using j by (auto simp: wellShaped_def)
    show "rowFilled (length a) (length b) (Suc j) (setCell m 0 j j)"
      using inv by (auto simp: rowFilled_def setCell_wellShaped setCell_nth [OF r] less_Suc_eq)
  qed simp
  then show ?thesis by (simp add: fillFirstRow_def)

qed

lemma cellStep_correct:
  assumes i: "1 \<le> i" "i \<le> length a" and j: "1 \<le> j" "j \<le> length b"
    and inv: "cellsDone a b i j m"
  shows "cellsDone a b i (Suc j) (cellStep a b i m j)"

proof -
  from inv have w: "wellShaped (length a) (length b) m"
    and col: "\<forall>i' \<le> length a. m ! i' ! 0 = i'"
    and rows: "\<forall>i' < i. \<forall>j' \<le> length b. m ! i' ! j' = prefixDistance a b i' j'"
    and cells: "\<forall>j' < j. m ! i ! j' = prefixDistance a b i j'"
    by (simp_all add: cellsDone_def rowsDone_def)
  from w i j have r: "i < length m" "j < length (m ! i)" by (auto simp: wellShaped_def)
  obtain i0 j0 where ij: "i = Suc i0" "j = Suc j0"
    using i(1) j(1) by (metis One_nat_def Suc_le_D)
  define v where "v = min (min (m ! (i - 1) ! j + 1) (m ! i ! (j - 1) + 1))
                (m ! (i - 1) ! (j - 1) + (if a ! (i - 1) = b ! (j - 1) then 0 else 1))"
  have up: "m ! (i - 1) ! j = prefixDistance a b i0 (Suc j0)"
    using rows ij j by simp
  have left: "m ! i ! (j - 1) = prefixDistance a b (Suc i0) j0"
    using cells ij by simp
  have diag: "m ! (i - 1) ! (j - 1) = prefixDistance a b i0 j0"
    using rows ij j by simp
  have v: "v = prefixDistance a b i j"
    unfolding v_def up left diag using ij i j by (simp add: prefixDistance_Suc)
  have step: "cellStep a b i m j = setCell m i j v"
    by (simp add: cellStep_def Let_def v_def)
  have n: "setCell m i j v ! i' ! j' = (if i' = i \<and> j' = j then v else m ! i' ! j')" for i' j'
    by (rule setCell_nth [OF r])
  have w': "wellShaped (length a) (length b) (setCell m i j v)"
    using w by (rule setCell_wellShaped)
  have col': "\<forall>i' \<le> length a. setCell m i j v ! i' ! 0 = i'"
    using col j(1) by (simp add: n)
  have rows': "\<forall>i' < i. \<forall>j' \<le> length b. setCell m i j v ! i' ! j' = prefixDistance a b i' j'"
    using rows by (simp add: n)
  have cells': "\<forall>j' < Suc j. setCell m i j v ! i ! j' = prefixDistance a b i j'"
    unfolding n using cells v by (simp add: less_Suc_eq)
  show ?thesis
    unfolding step cellsDone_def rowsDone_def using w' col' rows' cells' by blast

qed

lemma rowStep_correct:
  assumes i: "1 \<le> i" "i \<le> length a" and inv: "rowsDone a b i m"
  shows "rowsDone a b (Suc i) (rowStep a b m i)"

proof -
  have "cellsDone a b i (Suc (length b)) (foldl (cellStep a b i) m [1 ..< Suc (length b)])"
  proof (rule foldl_upt_invariant)
    have "m ! i ! 0 = prefixDistance a b i 0"
      using inv i by (simp add: rowsDone_def prefixDistance_0_right)
    then show "cellsDone a b i 1 m"
      using inv by (simp add: cellsDone_def)
  next
    fix j m'
    assume "1 \<le> j" "j < Suc (length b)" "cellsDone a b i j m'"
    then show "cellsDone a b i (Suc j) (cellStep a b i m' j)"
      using i by (intro cellStep_correct) simp_all
  qed simp
  then have "cellsDone a b i (Suc (length b)) (rowStep a b m i)"
    by (simp add: rowStep_def)
  then have r: "rowsDone a b i (rowStep a b m i)"
    and c: "\<forall>j' < Suc (length b). rowStep a b m i ! i ! j' = prefixDistance a b i j'"
    by (simp_all add: cellsDone_def)
  have "rowStep a b m i ! i' ! j' = prefixDistance a b i' j'"
    if "i' < Suc i" and "j' \<le> length b" for i' j'
  proof (cases "i' = i")
    case True
    with c that show ?thesis by (simp add: less_Suc_eq_le)
  next
    case False
    with that have "i' < i" by simp
    with r that show ?thesis by (simp add: rowsDone_def)
  qed
  with r show ?thesis by (simp add: rowsDone_def)

qed

lemma fillMatrix_correct:
  assumes "rowFilled (length a) (length b) (Suc (length b)) m"
  shows "rowsDone a b (Suc (length a)) (fillMatrix a b m)"

proof -
  have "rowsDone a b (Suc (length a)) (foldl (rowStep a b) m [1 ..< Suc (length a)])"
  proof (rule foldl_upt_invariant)
    show "rowsDone a b 1 m"
      using assms
      by (simp add: rowsDone_def rowFilled_def prefixDistance_0_left less_Suc_eq_le)
  next
    fix i m'
    assume "1 \<le> i" "i < Suc (length a)" "rowsDone a b i m'"
    then show "rowsDone a b (Suc i) (rowStep a b m' i)"
      by (intro rowStep_correct) simp_all
  qed simp
  then show ?thesis by (simp add: fillMatrix_def)

qed

lemma levenshteinDistance_prefix:
  "levenshteinDistance a b = editDistance (rev a) (rev b)"

proof -
  have "rowsDone a b (Suc (length a))
          (fillMatrix a b (fillFirstRow b (fillFirstColumn a (initMatrix a b))))"
    by (intro fillMatrix_correct fillFirstRow_correct fillFirstColumn_correct)
  then have "levenshteinDistance a b = prefixDistance a b (length a) (length b)"
    by (simp add: levenshteinDistance_def rowsDone_def)
  then show ?thesis by (simp add: prefixDistance_def)

qed

lemma edits_editDistance: "edits (editDistance xs ys) xs ys"

proof (induction xs ys rule: editDistance.induct)
  case (1 ys)
  show ?case by (induction ys) (auto intro: edits.intros)

next
  case (2 x xs)
  have "edits (length zs) zs []" for zs :: "'a list"
    by (induction zs) (auto intro: edits.intros)
  from this [of "x # xs"] show ?case by simp

next
  case (3 x xs y ys)
  let ?d = "editDistance xs (y # ys) + 1" and ?i = "editDistance (x # xs) ys + 1"
    and ?s = "editDistance xs ys + (if x = y then 0 else 1)"
  have d: "edits ?d (x # xs) (y # ys)" using 3(1) by (auto intro: edits.Delete)
  have i: "edits ?i (x # xs) (y # ys)" using 3(2) by (auto intro: edits.Insert)
  have s: "edits ?s (x # xs) (y # ys)"
    using 3(3) by (auto intro: edits.Keep edits.Substitute)
  have "editDistance (x # xs) (y # ys) = ?d \<or> editDistance (x # xs) (y # ys) = ?i
        \<or> editDistance (x # xs) (y # ys) = ?s"
    by (simp add: min_def)
  with d i s show ?case by metis

qed

lemma editDistance_Nil_right': "editDistance xs [] = length xs"
  by (cases xs) simp_all

lemma editDistance_delete: "editDistance (x # xs) ys \<le> Suc (editDistance xs ys)"
  by (cases ys) (simp_all add: editDistance_Nil_right')

lemma editDistance_insert: "editDistance xs (y # ys) \<le> Suc (editDistance xs ys)"
  by (cases xs) simp_all

lemma editDistance_keep: "editDistance (x # xs) (x # ys) \<le> editDistance xs ys"
  by simp

lemma editDistance_substitute: "editDistance (x # xs) (y # ys) \<le> Suc (editDistance xs ys)"
  by (simp add: min_def)

lemma editDistance_least: "edits n xs ys \<Longrightarrow> editDistance xs ys \<le> n"

proof (induction rule: edits.induct)
  case Done
  show ?case by simp

next
  case (Delete n xs ys x)
  with editDistance_delete [of x xs ys] show ?case by simp

next
  case (Insert n xs ys y)
  with editDistance_insert [of xs y ys] show ?case by simp

next
  case (Keep n xs ys x)
  with editDistance_keep [of x xs ys] show ?case by simp

next
  case (Substitute n xs ys x y)
  with editDistance_substitute [of x xs y ys] show ?case by simp

qed

lemma edits_delete_last: "edits n xs ys \<Longrightarrow> edits (Suc n) (xs @ [x]) ys"
  by (induction rule: edits.induct) (auto intro: edits.intros)

lemma edits_insert_last: "edits n xs ys \<Longrightarrow> edits (Suc n) xs (ys @ [y])"
  by (induction rule: edits.induct) (auto intro: edits.intros)

lemma edits_keep_last: "edits n xs ys \<Longrightarrow> edits n (xs @ [x]) (ys @ [x])"
  by (induction rule: edits.induct) (auto intro: edits.intros)

lemma edits_substitute_last: "edits n xs ys \<Longrightarrow> edits (Suc n) (xs @ [x]) (ys @ [y])"
  by (induction rule: edits.induct) (auto intro: edits.intros)

lemma edits_rev: "edits n xs ys \<Longrightarrow> edits n (rev xs) (rev ys)"
  by (induction rule: edits.induct)
     (auto intro: edits.Done edits_delete_last edits_insert_last edits_keep_last
        edits_substitute_last)

lemma editDistance_rev: "editDistance (rev xs) (rev ys) = editDistance xs ys"

proof (rule antisym)
  show "editDistance (rev xs) (rev ys) \<le> editDistance xs ys"
    by (intro editDistance_least edits_rev edits_editDistance)
  have "edits (editDistance (rev xs) (rev ys)) (rev (rev xs)) (rev (rev ys))"
    by (intro edits_rev edits_editDistance)
  then show "editDistance xs ys \<le> editDistance (rev xs) (rev ys)"
    by (intro editDistance_least) simp

qed

lemma levenshteinDistance_editDistance: "levenshteinDistance a b = editDistance a b"
  by (simp add: levenshteinDistance_prefix editDistance_rev)

lemma levenshtein_levenshteinDistance: "levenshtein a b = levenshteinDistance a b"
  by (simp add: levenshtein_def levenshteinDistance_def)

text \<open>C10. For all strings \<open>a\<close> and \<open>b\<close>, \<^verbatim>\<open>levenshteinDistance\<close> of the content scripts
  and \<^verbatim>\<open>levenshtein\<close> of the background worker return the same number, and that number
  is the unit-cost edit distance: some sequence of that many insertions, deletions and
  substitutions turns \<open>a\<close> into \<open>b\<close>, and no sequence of fewer does.\<close>

theorem levenshtein_functions_edit_distance:
  "levenshteinDistance a b = levenshtein a b
   \<and> levenshtein a b = editDistance a b
   \<and> edits (levenshtein a b) a b
   \<and> (\<forall>n. edits n a b \<longrightarrow> levenshtein a b \<le> n)"
  by (simp add: levenshtein_levenshteinDistance levenshteinDistance_editDistance
      edits_editDistance editDistance_least)

text \<open>C10 at the pair kitten and sitting: three operations suffice, so the functions return
  at most 3; they return 3.\<close>

theorem levenshtein_kitten_witness:
  "edits 3 ''kitten'' ''sitting''
   \<and> levenshtein ''kitten'' ''sitting'' \<le> 3
   \<and> levenshteinDistance ''kitten'' ''sitting'' = 3"

proof -
  have "edits (Suc (Suc (Suc 0))) ''kitten'' ''sitting''"
    by (intro edits.Keep edits.Substitute edits.Insert edits.Done)
  then have e: "edits 3 ''kitten'' ''sitting''"
    by (simp add: numeral_3_eq_3)
  have v: "levenshteinDistance ''kitten'' ''sitting'' = 3"
    by code_simp
  from levenshtein_functions_edit_distance [of "''kitten''" "''sitting''"] e v
  show ?thesis by simp

qed

lemma base: "baseLabel ''micros0ft.com'' = ''micros0ft''"
  by (simp add: baseLabel_def)

lemma subst: "list_all (\<lambda>t. \<not> checkCharacterSubstitution ''micros0ft'' t) commonDomains"
  by code_simp

lemma incl: "list_all (\<lambda>t. \<not> stringIncludes ''micros0ft'' t) commonDomains"
  by code_simp

lemma tech: "identifyTyposquatTechnique ''micros0ft'' ''microsoft'' = ''substitution''"
  by code_simp

lemma dists: "map (levenshteinDistance ''micros0ft'') commonDomains =
  [8, 8, 1, 9, 8, 9, 9, 9, 8, 9, 8, 9, 7, 8, 9, 7, 12, 10, 8, 9, 10, 12, 7, 7, 9, 9, 8, 7, 9, 6, 8, 8, 9, 8, 9, 6, 8, 8, 8, 9, 7, 6, 8, 9, 8, 9]"
  by code_simp

lemmas subst' = subst [unfolded commonDomains_def, simplified]

lemmas incl' = incl [unfolded commonDomains_def, simplified]

lemmas dists' = dists [unfolded commonDomains_def, simplified]

text \<open>C4. The code at the host name micros0ft.com: the analysis reports a typosquat of
  microsoft at distance 1 with confidence 8/9, and names the technique substitution, not
  character_substitution.\<close>

theorem micros0ft_analysis:
  "advancedTyposquatAnalysis ''micros0ft.com'' =
     \<lparr> isTyposquat = True, likelyTarget = Some ''microsoft'', distance = Some 1,
       technique = Some ''substitution'', ts_confidence = 8 / 9 \<rparr>"
  using subst' incl' dists'
  by (simp add: advancedTyposquatAnalysis_def base commonDomains_def typosquatStep_def Let_def tech)

text \<open>The check for character substitutions replaces every occurrence of the letter, so
  it compares micros0ft with micr0s0ft.\<close>

theorem micros0ft_substitution_check:
  "\<not> checkCharacterSubstitution ''micros0ft'' ''microsoft''
   \<and> replaceAll CHR ''o'' ''0'' ''microsoft'' = ''micr0s0ft''"
  by code_simp

lemma toFixed_bounds:
  assumes "0 \<le> x" and "x \<le> real b"
  shows "0 \<le> toFixed d x \<and> toFixed d x \<le> real b"

proof -
  have p: "(0::real) < 10 ^ d" by simp
  have f: "toFixed d x = of_int \<lfloor>x * 10 ^ d + 1 / 2\<rfloor> / 10 ^ d"
    using assms(1) by (simp add: toFixed_def)
  have "0 \<le> x * 10 ^ d + 1 / 2" using assms(1) by simp
  then have lo: "0 \<le> \<lfloor>x * 10 ^ d + 1 / 2\<rfloor>" by simp
  have "x * 10 ^ d \<le> real b * 10 ^ d" using assms(2) p by simp
  moreover have "(of_int (int b * 10 ^ d + 1) :: real) = real b * 10 ^ d + 1" by simp
  ultimately have "x * 10 ^ d + 1 / 2 < of_int (int b * 10 ^ d + 1)" by linarith
  then have "\<lfloor>x * 10 ^ d + 1 / 2\<rfloor> < int b * 10 ^ d + 1"
    by (rule floor_less_iff [THEN iffD2])
  then have "\<lfloor>x * 10 ^ d + 1 / 2\<rfloor> \<le> int b * 10 ^ d" by linarith
  then have "(of_int \<lfloor>x * 10 ^ d + 1 / 2\<rfloor> :: real) \<le> of_int (int b * 10 ^ d)"
    by (rule of_int_le_iff [THEN iffD2])
  then have hi: "of_int \<lfloor>x * 10 ^ d + 1 / 2\<rfloor> / 10 ^ d \<le> real b"
    using p by (simp add: divide_le_eq)
  from lo have "0 \<le> (of_int \<lfloor>x * 10 ^ d + 1 / 2\<rfloor> :: real) / 10 ^ d" by simp
  with hi f show ?thesis by simp

qed

lemma toFixed_inUnit: "inUnit x \<Longrightarrow> inUnit (toFixed d x)"
  using toFixed_bounds [of x 1 d] by (simp add: inUnit_def)

lemma toFixed_inPercent: "inPercent x \<Longrightarrow> inPercent (toFixed d x)"
  using toFixed_bounds [of x 100 d] by (simp add: inPercent_def)

text \<open>A loop keeps what each of its steps keeps.\<close>

lemma foldl_keeps:
  assumes "P s" and "\<And>s x. x \<in> set xs \<Longrightarrow> P s \<Longrightarrow> P (f s x)"
  shows "P (foldl f s xs)"
  using assms by (induction xs arbitrary: s) simp_all

lemma calculateVariance_nonneg: "0 \<le> calculateVariance xs"
  by (auto simp: calculateVariance_def Let_def intro!: divide_nonneg_nonneg sum_list_nonneg)

lemma linguisticStep_fst:
  "fst (linguisticStep e text (sc, st) (cat, ps, w)) =
     sc + min ((real (length (fst (matchCategory e text ps st))) / 10) * w) w"
  by (simp add: linguisticStep_def Let_def split: prod.splits)

lemma linguistic_nonneg: "0 \<le> fst (calculateLinguisticAIScore e text st)"

proof -
  have "0 \<le> fst (foldl (linguisticStep e text) (0, st) aiSignatures)"
  proof (rule foldl_keeps [where P = "\<lambda>a. 0 \<le> fst a"])
    show "0 \<le> fst (0::real, st)" by simp
  next
    fix a :: "real \<times> regexState" and c :: "string \<times> regex list \<times> real"
    assume c: "c \<in> set aiSignatures" and a: "0 \<le> fst a"
    obtain sc st' where a': "a = (sc, st')" by (cases a)
    obtain cat ps w where c': "c = (cat, ps, w)" by (cases c)
    from c c' have "0 \<le> w" by (auto simp: aiSignatures_def)
    then have "0 \<le> min ((real (length (fst (matchCategory e text ps st'))) / 10) * w) w"
      by simp
    with a a' show "0 \<le> fst (linguisticStep e text a c)"
      unfolding a' c' linguisticStep_fst by simp
  qed
  then show ?thesis
    by (simp add: calculateLinguisticAIScore_def case_prod_beta)

qed

lemma statistical_nonneg: "0 \<le> calculateStatisticalAIScore e text"
  by (simp add: calculateStatisticalAIScore_def Let_def)

lemma semantic_nonneg: "0 \<le> calculateSemanticAIScore e text"
  by (simp add: calculateSemanticAIScore_def Let_def)

lemma structural_nonneg: "0 \<le> calculateStructuralAIScore e text"
  by (simp add: calculateStructuralAIScore_def Let_def)

lemma composite_probability:
  assumes "0 \<le> linguistic c" "0 \<le> statistical c" "0 \<le> semantic c" "0 \<le> structural c"
  shows "inUnit (probability (calculateCompositeAIScore c))"
  using assms by (simp add: calculateCompositeAIScore_def componentWeights_def Let_def inUnit_def)

lemma composite_confidence: "inUnit (as_confidence (calculateCompositeAIScore c))"

proof -
  have "inUnit (max 0 (1 - calculateVariance [linguistic c, statistical c, semantic c, structural c]))"
    using calculateVariance_nonneg [of "[linguistic c, statistical c, semantic c, structural c]"]
    by (simp add: inUnit_def)
  then show ?thesis
    by (simp add: calculateCompositeAIScore_def Let_def toFixed_inUnit)

qed

lemma persuasionStep_score:
  "0 \<le> snd (snd a) \<Longrightarrow> 0 \<le> snd (snd (persuasionStep text a c))"
  by (cases a; cases c) (simp add: persuasionStep_def Let_def)

lemma persuasion_inUnit: "inUnit (p_score (detectPersuasionPatterns text))"

proof -
  have "0 \<le> snd (snd (foldl (persuasionStep text) ([], [], 0) persuasionTechniques))"
    by (rule foldl_keeps [where P = "\<lambda>a. 0 \<le> snd (snd a)"])
       (simp_all add: persuasionStep_score)
  then show ?thesis
    by (simp add: detectPersuasionPatterns_def case_prod_beta inUnit_def)

qed

lemma urgencyStep_score: "0 \<le> snd a \<Longrightarrow> 0 \<le> snd (urgencyStep e t a c)"
  by (cases a; cases c) (simp add: urgencyStep_def Let_def)

lemma urgency_inUnit: "inUnit (u_score (measureUrgencyTactics e originalText))"

proof -
  obtain ind sc where f: "foldl (urgencyStep e originalText) ([], 0) urgencyPatterns = (ind, sc)"
    by (cases "foldl (urgencyStep e originalText) ([], 0) urgencyPatterns")
  have "0 \<le> snd (foldl (urgencyStep e originalText) ([], 0) urgencyPatterns)"
    by (rule foldl_keeps [where P = "\<lambda>a. 0 \<le> snd a"]) (simp_all add: urgencyStep_score)
  with f have "0 \<le> sc" by simp
  then show ?thesis
    by (simp add: measureUrgencyTactics_def f Let_def inUnit_def)

qed

lemma clamp_inUnit: "inUnit (max 0 (min c 1))"
  by (simp add: inUnit_def)

lemma credibility_inUnit: "inUnit (cr_score (assessCredibilitySignals e t originalText))"
  by (simp add: assessCredibilitySignals_def Let_def case_prod_beta clamp_inUnit
      split del: if_split)

lemma readability_inPercent: "inPercent (calculateReadability w s y)"

proof (cases "s = 0 \<or> w = 0")
  case True
  then show ?thesis by (auto simp: calculateReadability_def inPercent_def)

next
  case False
  have "inPercent (max 0 (min 100 x))" for x :: real by (simp add: inPercent_def)
  with False show ?thesis
    by (simp add: calculateReadability_def Let_def toFixed_inPercent)

qed

lemma analyzeText_short:
  assumes "length (toLowerCase content) < 100"
  shows "analyzeText e st content = (createEmptyResult, st)"
  using assms by (simp add: analyzeText_def Let_def)

lemma analyzeText_scored:
  assumes "100 \<le> length (toLowerCase content)"
  shows "fst (analyzeText e st content) =
     \<lparr> aiProbability = toFixed 3 (probability (calculateCompositeAIScore (subScores e st content))),
       confidence = toFixed 3 (as_confidence (calculateCompositeAIScore (subScores e st content))),
       breakdown = as_breakdown (calculateCompositeAIScore (subScores e st content)),
       persuasionFlags = p_flags (detectPersuasionPatterns (toLowerCase content)),
       persuasionScore = toFixed 3 (p_score (detectPersuasionPatterns (toLowerCase content))),
       urgencyScore = toFixed 3 (u_score (measureUrgencyTactics e content)),
       urgencyIndicators = u_indicators (measureUrgencyTactics e content),
       manipulationTechniques = detectManipulationTechniques e (toLowerCase content),
       credibilityScore =
         toFixed 3 (cr_score (assessCredibilitySignals e (toLowerCase content) content)),
       credibilityFactors = cr_factors (assessCredibilitySignals e (toLowerCase content) content),
       recommendation =
         generateWarningLevel (probability (calculateCompositeAIScore (subScores e st content)))
           (u_score (measureUrgencyTactics e content))
           (p_flags (detectPersuasionPatterns (toLowerCase content)))
           (detectManipulationTechniques e (toLowerCase content)),
       textStats = Some (getTextStatistics e (toLowerCase content)) \<rparr>"

proof -
  from assms have n: "\<not> (toLowerCase content = [] \<or> length (toLowerCase content) < 100)"
    by auto
  obtain l st' where l: "calculateLinguisticAIScore e (toLowerCase content) st = (l, st')"
    by (cases "calculateLinguisticAIScore e (toLowerCase content) st")
  have s: "subScores e st content =
     \<lparr> linguistic = l, statistical = calculateStatisticalAIScore e (toLowerCase content),
       semantic = calculateSemanticAIScore e (toLowerCase content),
       structural = calculateStructuralAIScore e content \<rparr>"
    by (simp add: subScores_def l)
  show ?thesis
    unfolding analyzeText_def Let_def if_not_P [OF n] l s prod.case fst_conv by (rule refl)

qed

lemma subScores_nonneg:
  "0 \<le> linguistic (subScores e st content)" "0 \<le> statistical (subScores e st content)"
  "0 \<le> semantic (subScores e st content)" "0 \<le> structural (subScores e st content)"
  by (simp_all add: subScores_def linguistic_nonneg statistical_nonneg semantic_nonneg
      structural_nonneg)

lemma analyzeText_bounds:
  "inUnit (aiProbability (fst (analyzeText e st content)))
   \<and> inUnit (confidence (fst (analyzeText e st content)))
   \<and> inUnit (persuasionScore (fst (analyzeText e st content)))
   \<and> inUnit (urgencyScore (fst (analyzeText e st content)))
   \<and> inUnit (credibilityScore (fst (analyzeText e st content)))
   \<and> (case textStats (fst (analyzeText e st content)) of
        None \<Rightarrow> True | Some ts \<Rightarrow> inPercent (readabilityScore ts))"

proof (cases "length (toLowerCase content) < 100")
  case True
  then show ?thesis
    by (simp add: analyzeText_short createEmptyResult_def inUnit_def)

next
  case False
  then have "100 \<le> length (toLowerCase content)" by simp
  then show ?thesis
    by (simp add: analyzeText_scored toFixed_inUnit composite_probability subScores_nonneg
        composite_confidence persuasion_inUnit urgency_inUnit credibility_inUnit
        getTextStatistics_def Let_def readability_inPercent)

qed

lemma contextMultiplier_ge1: "1 \<le> calculateContextMultiplier t"
  unfolding calculateContextMultiplier_def

proof (rule foldl_keeps [where P = "\<lambda>m. 1 \<le> m"])
  fix m :: real and c :: "string \<times> string list \<times> real"
  assume "1 \<le> m"
  then show "1 \<le> (case c of (contextType, keywords, multiplier) \<Rightarrow>
              if list_ex (\<lambda>keyword. stringIncludes t (ascii keyword)) keywords
              then max m multiplier else m)"
    by (cases c) (simp add: le_max_iff_disj)

qed simp

lemma if_add_nonneg: "0 \<le> s \<Longrightarrow> 0 \<le> c \<Longrightarrow> (0::real) \<le> (if b then s + c else s)"
  by simp

lemma heuristics_score_bounds:
  "0 \<le> h_score (analyzeHeuristics e content t) \<and>
   h_score (analyzeHeuristics e content t) \<le> 4 / 10"

proof -
  have "\<exists>s. 0 \<le> s \<and> h_score (analyzeHeuristics e content t) = min s (4 / 10)"
    unfolding analyzeHeuristics_def Let_def llmHeuristics.select_convs
    by (intro exI conjI refl if_add_nonneg) simp_all
  then show ?thesis by auto

qed

lemma fingerprintStep_total:
  assumes "c \<in> set llmPatterns" and "0 \<le> fa_totalScore (fst a)"
  shows "0 \<le> fa_totalScore (fst (fingerprintStep e content a c))"

proof -
  obtain acc st where a: "a = (acc, st)" by (cases a)
  obtain cat ps w m where c: "c = (cat, ps, w, m)" by (cases c)
  from assms(1) c have w: "0 \<le> w" by (auto simp: llmPatterns_def)
  have "0 \<le> min ((real n * (1 / 10)) * w) w" for n :: nat using w by simp
  with assms(2) a show ?thesis
    unfolding a c by (simp add: fingerprintStep_def Let_def case_prod_beta)

qed

lemma detectAIPhishing_short:
  assumes "length content < 30"
  shows "detectAIPhishing e st content = (createEmptyFingerprint, st)"
  using assms by (simp add: detectAIPhishing_def)

lemma detectAIPhishing_scored:
  assumes "30 \<le> length content"
  shows "fst (detectAIPhishing e st content) =
     \<lparr> llm_score =
         toFixed 3 (min (fa_totalScore (fingerprintLoop e st content)
                           * calculateContextMultiplier (toLowerCase content)
                         + h_score (analyzeHeuristics e content (toLowerCase content))) 1),
       llm_matches = fa_matches (fingerprintLoop e st content),
       llm_totalHits = fa_totalHits (fingerprintLoop e st content),
       llm_modelSignatures = fa_modelSignatures (fingerprintLoop e st content),
       llm_likelyModel = identifyLikelyModel (fa_modelSignatures (fingerprintLoop e st content)),
       llm_contextMultiplier = toFixed 2 (calculateContextMultiplier (toLowerCase content)),
       llm_heuristics = Some (analyzeHeuristics e content (toLowerCase content)),
       llm_riskFactors =
         identifyRiskFactors (fa_matches (fingerprintLoop e st content))
           (analyzeHeuristics e content (toLowerCase content))
           (calculateContextMultiplier (toLowerCase content)) \<rparr>"

proof -
  from assms have n: "\<not> (content = [] \<or> length content < 30)" by auto
  obtain a st' where f: "foldl (fingerprintStep e content)
            (\<lparr> fa_matches = [], fa_modelSignatures = [], fa_totalScore = 0,
               fa_totalHits = 0 \<rparr>, st) llmPatterns = (a, st')"
    by (cases "foldl (fingerprintStep e content)
            (\<lparr> fa_matches = [], fa_modelSignatures = [], fa_totalScore = 0,
               fa_totalHits = 0 \<rparr>, st) llmPatterns")
  have l: "fingerprintLoop e st content = a" by (simp add: fingerprintLoop_def f)
  show ?thesis
    unfolding detectAIPhishing_def Let_def if_not_P [OF n] f l prod.case fst_conv by (rule refl)

qed

lemma fingerprintLoop_total: "0 \<le> fa_totalScore (fingerprintLoop e st content)"
  unfolding fingerprintLoop_def
  by (rule foldl_keeps [where P = "\<lambda>a. 0 \<le> fa_totalScore (fst a)"])
     (simp_all add: fingerprintStep_total)

lemma detectAIPhishing_score: "inUnit (llm_score (fst (detectAIPhishing e st content)))"

proof (cases "length content < 30")
  case True
  then show ?thesis
    by (simp add: detectAIPhishing_short createEmptyFingerprint_def inUnit_def)

next
  case False
  then have len: "30 \<le> length content" by simp
  have "0 \<le> fa_totalScore (fingerprintLoop e st content)
              * calculateContextMultiplier (toLowerCase content)"
    using fingerprintLoop_total [of e st content] contextMultiplier_ge1 [of "toLowerCase content"]
    by simp
  then have "0 \<le> fa_totalScore (fingerprintLoop e st content)
                   * calculateContextMultiplier (toLowerCase content)
                 + h_score (analyzeHeuristics e content (toLowerCase content))"
    using heuristics_score_bounds [of e content "toLowerCase content"] by linarith
  then have "inUnit (min (fa_totalScore (fingerprintLoop e st content)
                   * calculateContextMultiplier (toLowerCase content)
                 + h_score (analyzeHeuristics e content (toLowerCase content))) 1)"
    by (simp add: inUnit_def)
  then show ?thesis
    by (simp add: detectAIPhishing_scored [OF len] toFixed_inUnit)

qed

lemma identifyLikelyModel_confidence:
  "(case identifyLikelyModel sigs of None \<Rightarrow> True | Some m \<Rightarrow> inUnit (lm_confidence m))"

proof -
  have "inUnit (toFixed 3 (min (t * 2) 1))" if "t > 15 / 100" for t :: real
    using that by (intro toFixed_inUnit) (simp add: inUnit_def)
  then show ?thesis
    by (auto simp: identifyLikelyModel_def split: list.splits option.splits)

qed

lemma detectAIPhishing_likelyModel:
  "(case llm_likelyModel (fst (detectAIPhishing e st content)) of
      None \<Rightarrow> True | Some m \<Rightarrow> inUnit (lm_confidence m))"

proof (cases "length content < 30")
  case True
  then show ?thesis by (simp add: detectAIPhishing_short createEmptyFingerprint_def)

next
  case False
  then have len: "30 \<le> length content" by simp
  show ?thesis
    using identifyLikelyModel_confidence [of "fa_modelSignatures (fingerprintLoop e st content)"]
    by (simp add: detectAIPhishing_scored [OF len])

qed

lemma nodeCategoryStep_patterns:
  "na_patterns (nodeCategoryStep e text r (cat, ps, sev, w)) = na_patterns r \<or>
   (\<exists>ms. na_patterns (nodeCategoryStep e text r (cat, ps, sev, w)) =
      na_patterns r @ [(cat, \<lparr> ph_matches = ms, ph_severity = sev, ph_weight = w \<rparr>)])"
  by (simp add: nodeCategoryStep_def Let_def case_prod_beta)

lemma nodeCategoryStep_weights:
  assumes "c \<in> set jailbreakPatterns" and "weightsNonneg r"
  shows "weightsNonneg (nodeCategoryStep e text r c)"

proof -
  obtain cat ps sev w where c: "c = (cat, ps, sev, w)" by (cases c)
  from assms(1) c have w: "0 \<le> w" by (auto simp: jailbreakPatterns_def)
  from nodeCategoryStep_patterns [of e "text" r cat ps sev w] assms(2) w show ?thesis
    unfolding c weightsNonneg_def by auto

qed

lemma analyzeNode_weights: "weightsNonneg (analyzeNode e nodeText node src)"

proof -
  let ?r0 = "\<lparr> na_source = src, na_hits = 0, na_maxSeverity = ''low'',
               na_patterns = [], na_heuristics = None \<rparr>"
  have "weightsNonneg (foldl (nodeCategoryStep e (nodeText node src)) ?r0 jailbreakPatterns)"
  proof (rule foldl_keeps [where P = weightsNonneg])
    show "weightsNonneg ?r0" by (simp add: weightsNonneg_def)
  qed (rule nodeCategoryStep_weights)
  then show ?thesis
    by (simp add: analyzeNode_def Let_def weightsNonneg_def)

qed

lemma categoryWeightSum_nonneg:
  assumes "list_all weightsNonneg ds"
  shows "0 \<le> categoryWeightSum ds"

proof -
  have "0 \<le> (\<Sum>(c, p) \<leftarrow> filter (\<lambda>(c, p). c \<noteq> ''heuristics'') (na_patterns d). ph_weight p * 20)"
    if "weightsNonneg d" for d
    using that
    by (intro sum_list_nonneg) (auto simp: weightsNonneg_def list_all_iff)
  with assms show ?thesis
    unfolding categoryWeightSum_def by (intro sum_list_nonneg) (auto simp: list_all_iff)

qed

lemma retained_hits_nonneg: "0 \<le> (\<Sum>a \<leftarrow> retained xs. na_hits a)"
  by (intro sum_list_nonneg) (auto simp: retained_def)

lemma scanResults_riskScore:
  "inPercent (real_of_int (jb_riskScore (scanResults (analyzeNode e nodeText) pg)))"

proof -
  let ?an = "analyzeNode e nodeText"
  let ?all = "retained (scriptAnalyses ?an pg) @ retained (attributeAnalyses ?an pg eventHandlers)
              @ retained (attributeAnalyses ?an pg suspiciousAttributes)"
  let ?r3 = "foldl (addAnalysis True)
               (foldl (addAnalysis False)
                  (foldl (addAnalysis False)
                     \<lparr> jb_totalHits = 0, jb_criticalHits = 0, jb_detections = [], jb_riskScore = 0 \<rparr>
                     (scriptAnalyses ?an pg))
                  (attributeAnalyses ?an pg eventHandlers))
               (attributeAnalyses ?an pg suspiciousAttributes)"
  have d: "jb_detections ?r3 = ?all" by (simp add: foldl_addAnalysis)
  have t: "jb_totalHits ?r3 = (\<Sum>a \<leftarrow> ?all. na_hits a)" by (simp add: foldl_addAnalysis)
  have "0 \<le> (\<Sum>a \<leftarrow> ?all. na_hits a)"
    using retained_hits_nonneg by (simp add: add_nonneg_nonneg)
  with t have t0: "0 \<le> jb_totalHits ?r3" by simp
  have "list_all weightsNonneg ?all"
    by (auto simp: list_all_iff retained_def scriptAnalyses_def attributeAnalyses_def
        analyzeNode_weights)
  then have w0: "0 \<le> categoryWeightSum (jb_detections ?r3)"
    unfolding d by (rule categoryWeightSum_nonneg)
  have "0 \<le> min (jb_totalHits ?r3 * 15) 50 + real (jb_criticalHits ?r3) * 30
              + categoryWeightSum (jb_detections ?r3)"
    using t0 w0 by simp
  then have "0 \<le> calculateRiskScore ?r3"
    by (simp add: calculateRiskScore_sum mathRound_def)
  moreover have "calculateRiskScore ?r3 \<le> 100"
    by (simp add: calculateRiskScore_sum)
  moreover have "jb_riskScore (scanResults ?an pg) = calculateRiskScore ?r3"
    by (simp add: scanResults_def Let_def)
  ultimately show ?thesis by (simp add: inPercent_def)

qed

lemma editDistance_le_max: "editDistance xs ys \<le> max (length xs) (length ys)"

proof (induction xs ys rule: editDistance.induct)
  case (3 x xs y ys)
  have "editDistance (x # xs) (y # ys) \<le> editDistance xs ys + (if x = y then 0 else 1)"
    by simp
  also have "\<dots> \<le> editDistance xs ys + 1" by simp
  also have "\<dots> \<le> max (length xs) (length ys) + 1" using 3(3) by simp
  finally show ?case by simp

qed simp_all

lemma levenshteinDistance_le_max: "levenshteinDistance a b \<le> max (length a) (length b)"
  by (simp add: levenshteinDistance_editDistance editDistance_le_max)

lemma distance_ratio_inUnit:
  "inUnit (1 - real (levenshteinDistance a b) / real (max (length a) (length b)))"

proof (cases "max (length a) (length b) = 0")
  case True
  then show ?thesis by (simp add: inUnit_def)

next
  case False
  then have "0 < max (length a) (length b)" by arith
  then have p: "0 < real (max (length a) (length b))" by simp
  have "real (levenshteinDistance a b) \<le> real (max (length a) (length b))"
    using levenshteinDistance_le_max [of a b] by (rule of_nat_mono)
  then have "real (levenshteinDistance a b) / real (max (length a) (length b)) \<le> 1"
    using p by (simp add: divide_le_eq)
  moreover have "0 \<le> real (levenshteinDistance a b) / real (max (length a) (length b))"
    by simp
  ultimately show ?thesis by (simp add: inUnit_def)

qed

lemma typosquatStep_confidence:
  assumes "inUnit (ts_confidence r)"
  shows "inUnit (ts_confidence (typosquatStep base r target))"

proof -
  have c: "inUnit (9 / 10)" "inUnit (85 / 100)" by (simp_all add: inUnit_def)
  show ?thesis
    using assms c distance_ratio_inUnit [of base target]
    by (simp add: typosquatStep_def Let_def)

qed

lemma typosquat_confidence: "inUnit (ts_confidence (advancedTyposquatAnalysis domain))"
  unfolding advancedTyposquatAnalysis_def

proof (rule foldl_keeps [where P = "\<lambda>r. inUnit (ts_confidence r)"])
  show "inUnit (ts_confidence \<lparr> isTyposquat = False, likelyTarget = None, distance = None,
                  technique = None, ts_confidence = 0 \<rparr>)"
    by (simp add: inUnit_def)

qed (rule typosquatStep_confidence)

lemma closestStep_inUnit:
  assumes "inUnit best"
  shows "inUnit (closestStep name best ref)"

proof -
  define n where "n = real (levenshtein name ref) / real (max (max (length name) (length ref)) 1)"
  have "0 \<le> n" by (simp add: n_def)
  then have "0 \<le> min best n" and "min best n \<le> 1"
    using assms by (simp_all add: inUnit_def min_le_iff_disj)
  then show ?thesis
    by (simp add: closestStep_def Let_def inUnit_def n_def)

qed

lemma computeTyposquat_inUnit: "inUnit (computeTyposquat domain)"

proof -
  have "inUnit (foldl (closestStep (baseLabel domain)) 1 referenceDomains)"
  proof (rule foldl_keeps [where P = inUnit])
    show "inUnit 1" by (simp add: inUnit_def)
  qed (rule closestStep_inUnit)
  then show ?thesis
    by (simp add: computeTyposquat_def Let_def inUnit_def)

qed

lemma localScore_nonneg: "0 \<le> localScore l"
  by (simp add: localScore_def Let_def)

lemma scoreDomainRisk_bundle:
  "\<exists>x. scoreDomainRisk l (Some r) = Inr x \<and> inPercent x"
  using localScore_nonneg [of l]
  by (simp add: scoreDomainRisk_def Let_def inPercent_def)

lemma fallbackRisk_inPercent: "inPercent (fallbackRisk domain)"
  by (simp add: fallbackRisk_def Let_def inPercent_def)

lemma requestReputation_cases:
  "(\<exists>m. requestReputation delivered vk gk qv qg domain = Rejected m)
   \<or> requestReputation delivered vk gk qv qg domain = Replied None
   \<or> (\<exists>x. requestReputation delivered vk gk qv qg domain = Replied (Some x) \<and> inPercent x)"

proof (cases "delivered \<and> domain \<noteq> []")
  case False
  then show ?thesis
    by (auto simp: requestReputation_def resolveDomainReputation_def)

next
  case True
  obtain x where x: "scoreDomainRisk (buildLocalSignals domain)
        (Some (fetchRemoteSignals vk gk qv qg domain)) = Inr x" "inPercent x"
    using scoreDomainRisk_bundle by blast
  with True show ?thesis
    by (simp add: requestReputation_def resolveDomainReputation_def Let_def)

qed

lemma checkDomain_riskScore:
  "inPercent (dr_riskScore (checkDomain (requestReputation delivered vk gk qv qg) domain))"
  using requestReputation_cases [of delivered vk gk qv qg domain] fallbackRisk_inPercent [of domain]
  by (auto simp: checkDomain_def inPercent_def)

lemma maxOf_inUnit:
  assumes "xs \<noteq> []" and "list_all inUnit xs"
  shows "inUnit (maxOf xs)"

proof -
  obtain y ys where xs: "xs = y # ys" using assms(1) by (cases xs) auto
  have "inUnit (foldl max y ys)"
    using assms(2) unfolding xs
    by (intro foldl_keeps [where P = inUnit]) (auto simp: inUnit_def list_all_iff max_def)
  then show ?thesis by (simp add: maxOf_def xs)

qed

lemma brandStep_confidences:
  "list_all (\<lambda>b. inUnit (bh_confidence b)) bs \<Longrightarrow>
   list_all (\<lambda>b. inUnit (bh_confidence b)) (brandStep base bs brand)"
  by (simp add: brandStep_def Let_def inUnit_def)

lemma brandImpersonation_confidence:
  "inUnit (imp_confidence (detectBrandImpersonation domain))"

proof -
  define bs where "bs = foldl (brandStep (lowerAscii (baseLabel domain))) [] commonDomains"
  have inv: "list_all (\<lambda>b. inUnit (bh_confidence b)) bs"
    unfolding bs_def
  proof (rule foldl_keeps [where P = "list_all (\<lambda>b. inUnit (bh_confidence b))"])
    show "list_all (\<lambda>b. inUnit (bh_confidence b)) []" by simp
  qed (rule brandStep_confidences)
  have "inUnit (if length bs > 0 then maxOf (map bh_confidence bs) else 0)"
  proof (cases "bs = []")
    case True
    then show ?thesis by (simp add: inUnit_def)
  next
    case False
    then have "inUnit (maxOf (map bh_confidence bs))"
      using inv by (intro maxOf_inUnit) (simp_all add: list_all_iff)
    with False show ?thesis by simp
  qed
  then show ?thesis
    unfolding bs_def by (simp add: detectBrandImpersonation_def Let_def)

qed

lemma suspicionScore_inUnit: "inUnit (suspicionScoreOf domain)"
  by (simp add: suspicionScoreOf_def Let_def inUnit_def)

lemma analyzePage_total:
  "(case analyzePage e st st' nodeText now pg history
           (requestReputation delivered vk gk qv qg) domain content of
      None \<Rightarrow> True
    | Some a \<Rightarrow> inPercent (cs_total (as_compositeScore a)))"

proof (cases "trunc content 20000 = [] \<or> length (trunc content 20000) < 50")
  case True
  then show ?thesis by (simp add: analyzePage_def Let_def)

next
  case False
  define m where "m = buildMetrics (fst (analyzeText e st (trunc content 20000)))
       (fst (detectAIPhishing e st' (trunc content 20000)))
       (JbNumber (fst (scanPage (analyzeNode e nodeText) now domain pg history)))
       (Some (checkDomain (requestReputation delivered vk gk qv qg) domain))"
  have "0 \<le> m_aiProbability m"
    using analyzeText_bounds [of e st "trunc content 20000"]
    by (simp add: m_def buildMetrics_def inUnit_def)
  moreover have "0 \<le> m_domainRisk m"
    using checkDomain_riskScore [of delivered vk gk qv qg domain]
    by (simp add: m_def buildMetrics_def inPercent_def)
  ultimately have "0 \<le> rawTotal m" by (rule rawTotal_nonneg)
  then have "inPercent (cs_total (computeAdvancedCompositeScore m))"
    by (simp add: computeAdvancedCompositeScore_def inPercent_def)
  then show ?thesis
    using False by (simp add: analyzePage_def Let_def assess_def m_def)

qed

lemma scoreDomainRisk_case:
  "(case scoreDomainRisk l (Some r) of Inl err \<Rightarrow> False | Inr x \<Rightarrow> inPercent x)"
  using scoreDomainRisk_bundle [of l r] by auto

text \<open>C5. For every text, every page and every host name, in real arithmetic: the AI
  probability, the confidence and the persuasion, urgency and credibility scores of the
  AI-text analyzer, the score of the LLM fingerprinter and the confidence of its model guess,
  the confidence of the typosquat and brand analyses, the suspicion sub-score and the typosquat
  likelihood lie between 0 and 1; the readability score, the jailbreak risk score, the
  domain risk score (of the worker and of the content script) and the composite total lie
  between 0 and 100.\<close>

theorem detector_values_in_range:
  "inUnit (aiProbability (fst (analyzeText e st content)))
   \<and> inUnit (confidence (fst (analyzeText e st content)))
   \<and> inUnit (persuasionScore (fst (analyzeText e st content)))
   \<and> inUnit (urgencyScore (fst (analyzeText e st content)))
   \<and> inUnit (credibilityScore (fst (analyzeText e st content)))
   \<and> (case textStats (fst (analyzeText e st content)) of
        None \<Rightarrow> True | Some ts \<Rightarrow> inPercent (readabilityScore ts))
   \<and> inUnit (llm_score (fst (detectAIPhishing e st' content)))
   \<and> (case llm_likelyModel (fst (detectAIPhishing e st' content)) of
        None \<Rightarrow> True | Some m \<Rightarrow> inUnit (lm_confidence m))
   \<and> inPercent (real_of_int (jb_riskScore (scanResults (analyzeNode e nodeText) pg)))
   \<and> inUnit (ts_confidence (advancedTyposquatAnalysis domain))
   \<and> inUnit (imp_confidence (detectBrandImpersonation domain))
   \<and> inUnit (suspicionScoreOf domain)
   \<and> inUnit (typosquatLikelihood (buildLocalSignals domain))
   \<and> (case scoreDomainRisk (buildLocalSignals domain)
              (Some (fetchRemoteSignals vk gk qv qg domain)) of
        Inl err \<Rightarrow> False | Inr x \<Rightarrow> inPercent x)
   \<and> inPercent (dr_riskScore (checkDomain (requestReputation delivered vk gk qv qg) domain))
   \<and> (case analyzePage e st st' nodeText now pg history
              (requestReputation delivered vk gk qv qg) domain content of
        None \<Rightarrow> True | Some a \<Rightarrow> inPercent (cs_total (as_compositeScore a)))"

proof -
  have "inUnit (typosquatLikelihood (buildLocalSignals domain))"
    by (simp add: buildLocalSignals_def computeTyposquat_inUnit)
  then show ?thesis
    using analyzeText_bounds [of e st content] detectAIPhishing_score [of e st' content]
      detectAIPhishing_likelyModel [of e st' content] scanResults_riskScore [of e nodeText pg]
      typosquat_confidence [of domain] brandImpersonation_confidence [of domain]
      suspicionScore_inUnit [of domain]
      scoreDomainRisk_case [of "buildLocalSignals domain" "fetchRemoteSignals vk gk qv qg domain"]
      checkDomain_riskScore [of delivered vk gk qv qg domain]
      analyzePage_total [of e st st' nodeText now pg history delivered vk gk qv qg domain content]
    by blast

qed

lemma regExpExec_agree:
  assumes "st r = st' r"
  shows "fst (regExpExec e r s st) = fst (regExpExec e r s st')"
    and "snd (regExpExec e r s st) r = snd (regExpExec e r s st') r"
  using assms by (auto simp: regExpExec_def Let_def split: option.splits)

text \<open>What the loop of \<^verbatim>\<open>match\<close> collects depends on the state only through the
  \<^verbatim>\<open>lastIndex\<close> of its expression.\<close>

lemma matchLoop_lastIndex:
  "st r = st' r \<Longrightarrow> fst (matchLoop e r s st) = fst (matchLoop e r s st')"

proof (induction e r s st arbitrary: st' rule: matchLoop.induct)
  case (1 e r s st)
  obtain x st1 where a: "regExpExec e r s st = (x, st1)"
    by (cases "regExpExec e r s st")
  obtain x' st1' where b: "regExpExec e r s st' = (x', st1')"
    by (cases "regExpExec e r s st'")
  from regExpExec_agree [of st r st' e s] "1.prems" a b
  have xx: "x' = x" and rr: "st1 r = st1' r"
    by simp_all
  show ?case
  proof (cases x)
    case None
    with a b xx show ?thesis
      by (simp add: matchLoop.simps [of e r s st] matchLoop.simps [of e r s st'])
  next
    case (Some m)
    define st2 where "st2 = (if m = [] then st1(r := st1 r + 1) else st1)"
    define st2' where "st2' = (if m = [] then st1'(r := st1' r + 1) else st1')"
    have "st2 r = st2' r"
      using rr by (simp add: st2_def st2'_def)
    with "1.IH" [of x st1 m st2 st2'] a Some st2_def
    have "fst (matchLoop e r s st2) = fst (matchLoop e r s st2')"
      by simp
    then show ?thesis
      using a b xx Some
      by (simp add: matchLoop.simps [of e r s st] matchLoop.simps [of e r s st']
          st2_def st2'_def Let_def case_prod_beta)
  qed

qed

text \<open>\<^verbatim>\<open>match\<close> resets \<^verbatim>\<open>lastIndex\<close> before it searches: on a stored expression it
  finds what it finds on a new one.\<close>

lemma matchStored_fst: "fst (matchStored e r s st) = matchAll e r s"
  unfolding matchAll_def matchStored_def by (rule matchLoop_lastIndex) simp

text \<open>\<^verbatim>\<open>exec\<close> and \<^verbatim>\<open>test\<close> do read the state: on the string of one letter i the
  expression for vowels matches, and a second call, from the state the first one left,
  fails.\<close>

lemma regExpExec_reads_lastIndex:
  "fst (regExpExec plainEngine (Literal ''vowelGroups'') [105] (\<lambda>r. 0)) = Some [105]
   \<and> fst (regExpExec plainEngine (Literal ''vowelGroups'') [105]
            (snd (regExpExec plainEngine (Literal ''vowelGroups'') [105] (\<lambda>r. 0)))) = None"
  by (simp add: regExpExec_def plainEngine_def Let_def)

lemma matchCategory_found:
  "fst (foldl (\<lambda>(found, st) p. (let (ms, st') = matchStored e p s st in (found @ ms, st')))
          (found0, st0) ps)
   = found0 @ concat (map (\<lambda>p. matchAll e p s) ps)"

proof (induction ps arbitrary: found0 st0)
  case Nil
  show ?case by simp

next
  case (Cons p ps)
  obtain ms st1 where m: "matchStored e p s st0 = (ms, st1)"
    by (cases "matchStored e p s st0")
  with matchStored_fst [of e p s st0] have "ms = matchAll e p s"
    by simp
  with m Cons.IH [of "found0 @ ms" st1] show ?case
    by simp

qed

lemma matchCategory_stateless:
  "fst (matchCategory e s ps st) = concat (map (\<lambda>p. matchAll e p s) ps)"
  unfolding matchCategory_def using matchCategory_found [of e s "[]" st ps] by simp

lemma linguisticStep_stateless:
  "fst (linguisticStep e t (sc, st1) c) = fst (linguisticStep e t (sc, st2) c)"
  by (cases c) (simp add: linguisticStep_fst matchCategory_stateless)

lemma linguisticLoop_stateless:
  "fst (foldl (linguisticStep e t) (sc, st1) cs) = fst (foldl (linguisticStep e t) (sc, st2) cs)"

proof (induction cs arbitrary: sc st1 st2)
  case Nil
  show ?case by simp

next
  case (Cons c cs)
  obtain sc1 st1' where s1: "linguisticStep e t (sc, st1) c = (sc1, st1')"
    by (cases "linguisticStep e t (sc, st1) c")
  obtain sc2 st2' where s2: "linguisticStep e t (sc, st2) c = (sc2, st2')"
    by (cases "linguisticStep e t (sc, st2) c")
  from linguisticStep_stateless [of e t sc st1 c st2] s1 s2 have "sc1 = sc2" by simp
  with Cons.IH [of sc1 st1' st2'] s1 s2 show ?case by simp

qed

lemma calculateLinguisticAIScore_stateless:
  "fst (calculateLinguisticAIScore e t st1) = fst (calculateLinguisticAIScore e t st2)"
  using linguisticLoop_stateless [of e t 0 st1 aiSignatures st2]
  by (simp add: calculateLinguisticAIScore_def case_prod_beta)

lemma subScores_stateless: "subScores e st1 content = subScores e st2 content"
  by (simp add: subScores_def calculateLinguisticAIScore_stateless [of e _ st1 st2])

lemma analyzeText_stateless:
  "fst (analyzeText e st1 content) = fst (analyzeText e st2 content)"

proof (cases "length (toLowerCase content) < 100")
  case True
  then show ?thesis by (simp add: analyzeText_short)

next
  case False
  then have "100 \<le> length (toLowerCase content)" by simp
  then show ?thesis
    by (simp only: analyzeText_scored subScores_stateless [of e st1 content st2])

qed

lemma fingerprintStep_stateless:
  "fst (fingerprintStep e content (a, st1) c) = fst (fingerprintStep e content (a, st2) c)"

proof -
  obtain cat ps w m where c: "c = (cat, ps, w, m)" by (cases c)
  obtain f1 s1 where m1: "matchCategory e content ps st1 = (f1, s1)"
    by (cases "matchCategory e content ps st1")
  obtain f2 s2 where m2: "matchCategory e content ps st2 = (f2, s2)"
    by (cases "matchCategory e content ps st2")
  from matchCategory_stateless [of e content ps st1] matchCategory_stateless [of e content ps st2]
    m1 m2 have "f1 = f2" by simp
  then show ?thesis
    by (simp add: fingerprintStep_def c m1 m2 Let_def)

qed

lemma fingerprintFold_stateless:
  "fst (foldl (fingerprintStep e content) (a, st1) cs)
   = fst (foldl (fingerprintStep e content) (a, st2) cs)"

proof (induction cs arbitrary: a st1 st2)
  case Nil
  show ?case by simp

next
  case (Cons c cs)
  obtain a1 st1' where s1: "fingerprintStep e content (a, st1) c = (a1, st1')"
    by (cases "fingerprintStep e content (a, st1) c")
  obtain a2 st2' where s2: "fingerprintStep e content (a, st2) c = (a2, st2')"
    by (cases "fingerprintStep e content (a, st2) c")
  from fingerprintStep_stateless [of e content a st1 c st2] s1 s2 have "a1 = a2" by simp
  with Cons.IH [of a1 st1' st2'] s1 s2 show ?case by simp

qed

lemma fingerprintLoop_stateless: "fingerprintLoop e st1 content = fingerprintLoop e st2 content"
  unfolding fingerprintLoop_def by (rule fingerprintFold_stateless)

lemma detectAIPhishing_stateless:
  "fst (detectAIPhishing e st1 content) = fst (detectAIPhishing e st2 content)"

proof (cases "length content < 30")
  case True
  then show ?thesis by (simp add: detectAIPhishing_short)

next
  case False
  then have "30 \<le> length content" by simp
  then show ?thesis
    by (simp only: detectAIPhishing_scored fingerprintLoop_stateless [of e st1 content st2])

qed

text \<open>C9. Calling the AI-text analyzer twice on the same text yields the same result, and
  so does calling the LLM fingerprinter twice: the second call starts in the state the first
  call left (the \<^verbatim>\<open>lastIndex\<close> values of the stored regular expressions), and the
  result is the same from every state, because the detectors use their stored expressions
  through \<^verbatim>\<open>match\<close> alone, which resets \<^verbatim>\<open>lastIndex\<close> before its loop of
  \<^verbatim>\<open>exec\<close> reads it.\<close>

theorem detectors_repeatable:
  "fst (analyzeText e (snd (analyzeText e st content)) content) = fst (analyzeText e st content)
   \<and> fst (detectAIPhishing e (snd (detectAIPhishing e st' content)) content)
       = fst (detectAIPhishing e st' content)
   \<and> fst (analyzeText e st1 content) = fst (analyzeText e st2 content)
   \<and> fst (detectAIPhishing e st1 content) = fst (detectAIPhishing e st2 content)"
  using analyzeText_stateless detectAIPhishing_stateless by blast

lemma toLowerCase_dotted: "toLowerCase (replicate n 304) = concat (replicate n [105, 775])"
  by (induction n) (simp_all add: toLowerCase_def lowerUnit_def)

lemma dottedInput_lower_length: "length (toLowerCase dottedInput) = 100"
  by (simp add: dottedInput_def toLowerCase_dotted length_concat sum_list_replicate)

lemma toLowerCase_length:
  "list_all (\<lambda>u. u \<noteq> 304) s \<Longrightarrow> length (toLowerCase s) = length s"
  by (induction s) (simp_all add: toLowerCase_def lowerUnit_def)

lemma analyzeText_short_plain:
  assumes "list_all (\<lambda>u. u \<noteq> 304) content" and "length content < 100"
  shows "analyzeText e st content = (createEmptyResult, st)"
  using assms by (simp add: analyzeText_short toLowerCase_length)

lemma plain_matchAll:
  "r \<noteq> Literal ''vowelGroups'' \<Longrightarrow> matchAll plainEngine r s = []"
  unfolding matchAll_def matchStored_def
  by (subst matchLoop.simps) (simp add: regExpExec_def plainEngine_def Let_def)

lemma plain_testRe:
  "r \<noteq> Literal ''vowelGroups'' \<Longrightarrow> \<not> testRe plainEngine r s"
  by (simp add: testRe_def regExpExec_def plainEngine_def Let_def)

lemma plain_split: "splitRe plainEngine r s = [s]"
  by (simp add: plainEngine_def)

lemma plain_linguistic: "fst (calculateLinguisticAIScore plainEngine t st) = 0"

proof -
  have m: "fst (matchCategory plainEngine t (patternsOf c n) st') = []" for c n st'
    by (simp add: matchCategory_stateless patternsOf_def plain_matchAll)
  have "fst (foldl (linguisticStep plainEngine t) (0, st) aiSignatures) = 0"
    by (simp add: aiSignatures_def) (simp add: linguisticStep_def case_prod_beta Let_def m)
  then show ?thesis
    by (simp add: calculateLinguisticAIScore_def case_prod_beta)

qed

lemma plain_statistical: "calculateStatisticalAIScore plainEngine t = 0"
  by (simp add: calculateStatisticalAIScore_def sentencesLongerThan_def plain_split Let_def)

lemma plain_semantic: "calculateSemanticAIScore plainEngine t = 0"
  by (simp add: calculateSemanticAIScore_def plain_split plain_matchAll Let_def ratioExceeds_def)

lemma plain_structural: "calculateStructuralAIScore plainEngine t = 0"
  by (simp add: calculateStructuralAIScore_def plain_split plain_testRe Let_def)

lemma plain_subScores:
  "subScores plainEngine st content =
     \<lparr> linguistic = 0, statistical = 0, semantic = 0, structural = 0 \<rparr>"
  by (simp add: subScores_def plain_linguistic plain_statistical plain_semantic plain_structural)

lemma plain_composite:
  "probability (calculateCompositeAIScore
      \<lparr> linguistic = 0, statistical = 0, semantic = 0, structural = 0 \<rparr>) = 0
   \<and> as_confidence (calculateCompositeAIScore
      \<lparr> linguistic = 0, statistical = 0, semantic = 0, structural = 0 \<rparr>) = 1"
  by (simp add: calculateCompositeAIScore_def componentWeights_def calculateVariance_def Let_def
      toFixed_def)

text \<open>C6. The code at a text of fifty characters: lower-casing doubles its length to 100,
  the guard on the length does not hold, and the text is scored. Whatever the expressions
  match, the result is not the empty result; with what they do match in this text, the
  result has probability 0 and confidence 1.\<close>

theorem short_text_scored:
  "length dottedInput = 50
   \<and> length (toLowerCase dottedInput) = 100
   \<and> fst (analyzeText e st dottedInput) \<noteq> createEmptyResult
   \<and> aiProbability (fst (analyzeText plainEngine st dottedInput)) = 0
   \<and> confidence (fst (analyzeText plainEngine st dottedInput)) = 1"

proof -
  have l: "100 \<le> length (toLowerCase dottedInput)" by (simp add: dottedInput_lower_length)
  have "textStats (fst (analyzeText e st dottedInput)) \<noteq> textStats createEmptyResult"
    by (simp add: analyzeText_scored [OF l] createEmptyResult_def)
  then have ne: "fst (analyzeText e st dottedInput) \<noteq> createEmptyResult" by auto
  have t: "toFixed 3 0 = 0" "toFixed 3 1 = 1" by (simp_all add: toFixed_def)
  have "aiProbability (fst (analyzeText plainEngine st dottedInput)) = 0"
    and "confidence (fst (analyzeText plainEngine st dottedInput)) = 1"
    using plain_composite by (simp_all add: analyzeText_scored [OF l] plain_subScores t)
  with ne show ?thesis by (simp add: dottedInput_lower_length) (simp add: dottedInput_def)

qed

end
